theory Spec2Isabelle
  imports Main "HOL-Library.AList"
begin

section \<open>Python strings and posixpath\<close>

text \<open>
  A Python \<open>str\<close> is a sequence of Unicode code points, so it is modelled as a list of
  natural numbers (the code points). String literals of the source are written
  \<open>lit ''...''\<close>. The right-to-left override U+202E is the code point 8238.
\<close>

type_synonym pystr = "nat list"

abbreviation lit :: "string \<Rightarrow> pystr" where
  "lit s \<equiv> map of_char s"

definition right_to_left_override :: nat where
  "right_to_left_override = 8238"

definition startswith :: "pystr \<Rightarrow> pystr \<Rightarrow> bool" where
  \<comment> \<open>\<open>s.startswith(p)\<close>\<close>
  "startswith s p = (take (length p) s = p)"

definition endswith :: "pystr \<Rightarrow> pystr \<Rightarrow> bool" where
  \<comment> \<open>\<open>s.endswith(p)\<close>\<close>
  "endswith s p = (length p \<le> length s \<and> drop (length s - length p) s = p)"

fun py_in :: "pystr \<Rightarrow> pystr \<Rightarrow> bool" where
  \<comment> \<open>\<open>sub in s\<close> on strings: \<open>sub\<close> occurs as a contiguous substring of \<open>s\<close>\<close>
  "py_in sub [] = (sub = [])"
| "py_in sub (c # cs) = (startswith (c # cs) sub \<or> py_in sub cs)"

definition replace_char :: "nat \<Rightarrow> pystr \<Rightarrow> pystr" where
  \<comment> \<open>\<open>s.replace(c, '')\<close> for a one-character string \<open>c\<close>\<close>
  "replace_char c s = filter (\<lambda>x. x \<noteq> c) s"

fun py_split :: "nat \<Rightarrow> pystr \<Rightarrow> pystr list" where
  \<comment> \<open>\<open>s.split(c)\<close> for a one-character separator\<close>
  "py_split c [] = [[]]"
| "py_split c (x # xs) =
     (if x = c then [] # py_split c xs
      else (case py_split c xs of [] \<Rightarrow> [[x]] | r # rs \<Rightarrow> (x # r) # rs))"

definition rfind :: "nat \<Rightarrow> pystr \<Rightarrow> int" where
  \<comment> \<open>\<open>s.rfind(c)\<close>: the index of the last occurrence, or -1\<close>
  "rfind c s =
     (if c \<in> set s then int (length s) - 1 - int (length (takeWhile (\<lambda>x. x \<noteq> c) (rev s)))
      else - 1)"

definition rstrip :: "nat \<Rightarrow> pystr \<Rightarrow> pystr" where
  "rstrip c s = rev (dropWhile (\<lambda>x. x = c) (rev s))"

definition path_split :: "pystr \<Rightarrow> pystr \<times> pystr" where
  \<comment> \<open>\<open>posixpath.split\<close>\<close>
  "path_split p =
     (let i = nat (rfind 47 p + 1);
          head = take i p;
          tail = drop i p
      in if head \<noteq> [] \<and> head \<noteq> replicate (length head) 47
         then (rstrip 47 head, tail) else (head, tail))"

definition basename :: "pystr \<Rightarrow> pystr" where
  \<comment> \<open>\<open>posixpath.basename\<close>\<close>
  "basename p = drop (nat (rfind 47 p + 1)) p"

definition path_join :: "pystr \<Rightarrow> pystr \<Rightarrow> pystr" where
  \<comment> \<open>\<open>posixpath.join\<close> of two components\<close>
  "path_join a b =
     (if startswith b [47] then b
      else if a = [] \<or> endswith a [47] then a @ b
      else a @ [47] @ b)"

definition splitext :: "pystr \<Rightarrow> pystr \<times> pystr" where
  \<comment> \<open>\<open>posixpath.splitext\<close>: leading dots of the last component are not an extension\<close>
  "splitext p =
     (let sepIndex = rfind 47 p;
          dotIndex = rfind 46 p
      in if dotIndex > sepIndex \<and>
            list_ex (\<lambda>c. c \<noteq> 46)
              (take (nat (dotIndex - (sepIndex + 1))) (drop (nat (sepIndex + 1)) p))
         then (take (nat dotIndex) p, drop (nat dotIndex) p)
         else (p, []))"

definition truthy :: "pystr option \<Rightarrow> bool" where
  \<comment> \<open>Python truth of a value that is \<open>None\<close> or a string\<close>
  "truthy v = (case v of None \<Rightarrow> False | Some s \<Rightarrow> s \<noteq> [])"

section \<open>Exceptions, the filesystem and the collaborators\<close>

datatype pyerror =
    ValueError | IndexError | UnboundLocalError | TypeError | AttributeError | OSError
  | FileNotFoundError | FileExistsError | NotADirectoryError | IsADirectoryError
  | SameFileError | UnicodeEncodeError | KittenGroomerError | ParseError

datatype fsobj = FileObj "nat list" | DirObj

type_synonym filesystem = "pystr \<rightharpoonup> fsobj"

text \<open>
  The filesystem maps a path, as it is written, to what is stored there. The empty path
  names nothing, a path of slashes only is the root directory, and a relative path with
  no directory part lies in the current directory, which exists. The primitives of
  \<open>os\<close> and \<open>shutil\<close> the code calls are modelled with the exceptions they raise:
  an entry can only be created in a directory that exists, \<open>os.makedirs\<close> follows the
  recursion of the standard library, \<open>shutil.copy\<close> refuses a source that is not a
  regular file and a copy onto itself, \<open>shutil.rmtree\<close> refuses what is not a
  directory.
\<close>

definition is_root :: "pystr \<Rightarrow> bool" where
  "is_root p = (p \<noteq> [] \<and> p = replicate (length p) 47)"

definition stat :: "filesystem \<Rightarrow> pystr \<Rightarrow> fsobj option" where
  "stat fs p = (if p = [] then None else if is_root p then Some DirObj else fs p)"

definition exists_path :: "filesystem \<Rightarrow> pystr \<Rightarrow> bool" where
  \<comment> \<open>\<open>os.path.exists\<close>\<close>
  "exists_path fs p = (stat fs p \<noteq> None)"

definition isdir :: "filesystem \<Rightarrow> pystr \<Rightarrow> bool" where
  \<comment> \<open>\<open>os.path.isdir\<close>\<close>
  "isdir fs p = (stat fs p = Some DirObj)"

definition parent_error :: "filesystem \<Rightarrow> pystr \<Rightarrow> pyerror option" where
  \<comment> \<open>what creating an entry at \<open>p\<close> raises on account of the directory it would lie in\<close>
  "parent_error fs p =
     (let d = fst (path_split p)
      in if d = [] then None
         else (case stat fs d of
                 Some DirObj \<Rightarrow> None
               | Some (FileObj c) \<Rightarrow> Some NotADirectoryError
               | None \<Rightarrow> Some FileNotFoundError))"

definition mkdir :: "filesystem \<Rightarrow> pystr \<Rightarrow> pyerror + filesystem" where
  \<comment> \<open>\<open>os.mkdir\<close>\<close>
  "mkdir fs p =
     (if p = [] then Inl FileNotFoundError
      else if exists_path fs p then Inl FileExistsError
      else (case parent_error fs p of
              Some e \<Rightarrow> Inl e
            | None \<Rightarrow> Inr (fs(p \<mapsto> DirObj))))"

definition write_file :: "filesystem \<Rightarrow> pystr \<Rightarrow> nat list \<Rightarrow> pyerror + filesystem" where
  \<comment> \<open>opening \<open>p\<close> for writing (truncating) and writing the content\<close>
  "write_file fs p bytes =
     (if p = [] then Inl FileNotFoundError
      else if isdir fs p then Inl IsADirectoryError
      else (case parent_error fs p of
              Some e \<Rightarrow> Inl e
            | None \<Rightarrow> Inr (fs(p \<mapsto> FileObj bytes))))"

lemma length_rstrip: "length (rstrip c s) \<le> length s"
  by (simp add: rstrip_def order_trans [OF length_dropWhile_le])

lemma length_fst_path_split: "length (fst (path_split p)) \<le> length p"
  using length_rstrip [of 47 "take (nat (rfind 47 p + 1)) p"]
  by (auto simp: path_split_def Let_def)

lemma path_split_tail_shorter:
  assumes "snd (path_split p) \<noteq> []"
  shows "length (fst (path_split p)) < length p"
proof -
  from assms have i: "nat (rfind 47 p + 1) < length p"
    by (auto simp: path_split_def Let_def split: if_splits)
  have "length (fst (path_split p)) \<le> nat (rfind 47 p + 1)"
    using length_rstrip [of 47 "take (nat (rfind 47 p + 1)) p"]
    by (auto simp: path_split_def Let_def)
  with i show ?thesis by simp
qed

definition makedirs_split :: "pystr \<Rightarrow> pystr \<times> pystr" where
  \<comment> \<open>the first lines of \<open>os.makedirs\<close>: split the name, and once more when it ends in a slash\<close>
  "makedirs_split nm =
     (let (head, tail) = path_split nm
      in if tail = [] then path_split head else (head, tail))"

lemma makedirs_split_shorter:
  assumes "snd (makedirs_split nm) \<noteq> []"
  shows "length (fst (makedirs_split nm)) < length nm"
proof (cases "snd (path_split nm) = []")
  case True
  with assms have t: "snd (path_split (fst (path_split nm))) \<noteq> []"
    and eq: "makedirs_split nm = path_split (fst (path_split nm))"
    by (cases "path_split nm", simp add: makedirs_split_def)+
  from path_split_tail_shorter [OF t] length_fst_path_split [of nm]
  show ?thesis by (simp add: eq)
next
  case False
  then have "makedirs_split nm = path_split nm"
    by (cases "path_split nm") (simp add: makedirs_split_def)
  with path_split_tail_shorter [OF False] show ?thesis by simp
qed

function makedirs :: "filesystem \<Rightarrow> pystr \<Rightarrow> pyerror + filesystem" where
  \<comment> \<open>\<open>os.makedirs(name)\<close> with \<open>exist_ok=False\<close>: the missing ancestors first, then
      \<open>mkdir(name)\<close>, whose exception is raised again\<close>
  "makedirs fs nm =
     (if fst (makedirs_split nm) \<noteq> [] \<and> snd (makedirs_split nm) \<noteq> [] \<and>
         \<not> exists_path fs (fst (makedirs_split nm))
      then (case makedirs fs (fst (makedirs_split nm)) of
              Inl e \<Rightarrow>
                (if e = FileExistsError
                 then (if snd (makedirs_split nm) = [46] then Inr fs else mkdir fs nm)
                 else Inl e)
            | Inr fs1 \<Rightarrow> (if snd (makedirs_split nm) = [46] then Inr fs1 else mkdir fs1 nm))
      else mkdir fs nm)"
  by pat_completeness auto
termination
  by (relation "measure (\<lambda>(fs, nm). length nm)") (auto simp: makedirs_split_shorter)

declare makedirs.simps [simp del]

definition rmtree :: "filesystem \<Rightarrow> pystr \<Rightarrow> pyerror + filesystem" where
  \<comment> \<open>\<open>shutil.rmtree\<close>: the directory and everything below it\<close>
  "rmtree fs p =
     (case stat fs p of
        Some DirObj \<Rightarrow> Inr (\<lambda>q. if q = p \<or> startswith q (p @ [47]) then None else fs q)
      | Some (FileObj c) \<Rightarrow> Inl NotADirectoryError
      | None \<Rightarrow> Inl FileNotFoundError)"

definition shutil_copy :: "filesystem \<Rightarrow> pystr \<Rightarrow> pystr \<Rightarrow> pyerror + filesystem" where
  \<comment> \<open>\<open>shutil.copy(src, dst)\<close>: into \<open>dst\<close> when it is a directory; \<open>copyfile\<close> raises
      SameFileError, then what opening the source and the destination raises\<close>
  "shutil_copy fs src dst0 =
     (let dst = (if isdir fs dst0 then path_join dst0 (basename src) else dst0)
      in if src = dst \<and> exists_path fs src then Inl SameFileError
         else (case stat fs src of
                 None \<Rightarrow> Inl FileNotFoundError
               | Some DirObj \<Rightarrow> Inl IsADirectoryError
               | Some (FileObj c) \<Rightarrow> write_file fs dst c))"

text \<open>
  The collaborators (libmagic, olefile and oletools, officedissector, zipfile, pdfid,
  exifread, PIL) are outside the repository. What each of them answers for one file is
  a field of the record \<open>fenv\<close>; \<open>None\<close> stands for the collaborator raising.
  The answers are those for a source file the collaborators can read. \<open>str.lower\<close>
  follows the Unicode tables of the interpreter and is a field of the same record.
\<close>

record ole_file =
  parsing_issues :: bool
  streams :: "pystr list"

definition ole_exists :: "ole_file \<Rightarrow> pystr \<Rightarrow> bool" where
  "ole_exists ole name = (name \<in> set (streams ole))"

record ole_id =
  encrypted :: bool
  macros :: bool
  oid_ole :: ole_file
  indicators :: "(pystr \<times> bool) list"

record ooxml_doc =
  is_macro_enabled :: bool
  features_macros :: nat
  features_embedded_controls :: nat
  features_embedded_objects :: nat
  features_embedded_packages :: nat

record pdfid =
  encrypt_count :: nat
  js_count :: nat
  javascript_count :: nat
  aa_count :: nat
  openaction_count :: nat
  richmedia_count :: nat
  launch_count :: nat

datatype magic_result = Mime pystr | MagicUnicodeEncodeError

datatype exif_result =
    ExifTags "(pystr \<times> pystr) list"
  | ExifRetryTags "(pystr \<times> pystr) list"
  | ExifFails

record fenv =
  str_lower :: "pystr \<Rightarrow> pystr"
  getsize :: "nat option"
  readlink :: "pystr option"
  magic_from_file :: magic_result
  content :: "nat list"
  isOleFile :: bool
  OleFileIO :: "ole_file option"
  OleID_check :: ole_id
  Document :: "ooxml_doc option"
  ZipFile_infolist :: "pystr list option"
  PDFiD :: pdfid
  exif_process_file :: exif_result
  png_info :: "(pystr \<times> pystr) list option"
  image_reencode :: "nat list option"

section \<open>FileBase (kittengroomer/helpers.py)\<close>

datatype category = dangerous | unknown | binary

record props =
  p_filepath :: pystr
  p_filename :: pystr
  p_file_size :: nat
  p_maintype :: "pystr option"
  p_subtype :: "pystr option"
  p_extension :: "pystr option"
  p_safety_category :: "category option"
  p_symlink :: "pystr option"
  p_copied :: bool
  p_description_string :: "pystr option list"
  p_errors :: "(pyerror \<times> pystr) list"
  p_user_defined :: "(pystr \<times> pystr) list"

record file_rec =
  src_path :: pystr
  dst_path :: pystr
  filename :: pystr
  file_props :: props
  extension :: "pystr option"
  mimetype :: "pystr option"
  should_copy :: bool
  main_type :: "pystr option"
  sub_type :: "pystr option"
  is_recursive :: bool
  tempdir_path :: pystr
  metadata_file_path :: "pystr option"

text \<open>
  \<open>set_property\<close> takes the property name as a string; the names the code passes are
  the constructors of \<open>prop_update\<close>. \<open>description_string\<close> appends a value that is
  not there yet, a name of the property API is assigned, any other name goes to
  \<open>user_defined\<close>.
\<close>

datatype prop_update =
    Set_extension "pystr option"
  | Set_maintype pystr
  | Set_subtype pystr
  | Set_symlink pystr
  | Set_safety_category category
  | Set_copied bool
  | Set_description_string "pystr option"
  | Set_user pystr pystr

fun set_props :: "props \<Rightarrow> prop_update \<Rightarrow> props" where
  "set_props ps (Set_description_string v) =
     (if v \<notin> set (p_description_string ps)
      then ps\<lparr>p_description_string := p_description_string ps @ [v]\<rparr> else ps)"
| "set_props ps (Set_extension v) = ps\<lparr>p_extension := v\<rparr>"
| "set_props ps (Set_maintype v) = ps\<lparr>p_maintype := Some v\<rparr>"
| "set_props ps (Set_subtype v) = ps\<lparr>p_subtype := Some v\<rparr>"
| "set_props ps (Set_symlink v) = ps\<lparr>p_symlink := Some v\<rparr>"
| "set_props ps (Set_safety_category v) = ps\<lparr>p_safety_category := Some v\<rparr>"
| "set_props ps (Set_copied v) = ps\<lparr>p_copied := v\<rparr>"
| "set_props ps (Set_user k v) = ps\<lparr>p_user_defined := AList.update k v (p_user_defined ps)\<rparr>"

definition set_property :: "file_rec \<Rightarrow> prop_update \<Rightarrow> file_rec" where
  "set_property f u = f\<lparr>file_props := set_props (file_props f) u\<rparr>"

definition add_error :: "file_rec \<Rightarrow> pyerror \<Rightarrow> pystr \<Rightarrow> file_rec" where
  "add_error f e info =
     f\<lparr>file_props := (file_props f)\<lparr>p_errors := p_errors (file_props f) @ [(e, info)]\<rparr>\<rparr>"

definition add_description :: "file_rec \<Rightarrow> pystr \<Rightarrow> file_rec" where
  "add_description f d = set_property f (Set_description_string (Some d))"

definition determine_extension :: "fenv \<Rightarrow> pystr \<Rightarrow> pystr option" where
  "determine_extension env src =
     (let ext = str_lower env (snd (splitext src)) in if ext = [] then None else Some ext)"

definition split_subtypes :: "pystr \<Rightarrow> pyerror + (pystr option \<times> pystr option)" where
  \<comment> \<open>unpacking \<open>mimetype.split('/')\<close> into two names raises unless there are two parts\<close>
  "split_subtypes mt =
     (if 47 \<in> set mt
      then (case py_split 47 mt of [a, b] \<Rightarrow> Inr (Some a, Some b) | _ \<Rightarrow> Inl ValueError)
      else Inr (None, None))"

definition FileBase_init :: "fenv \<Rightarrow> pystr \<Rightarrow> pystr \<Rightarrow> pyerror + file_rec" where
  "FileBase_init env src dst =
     (let name = basename src;
          ext = determine_extension env src;
          ps0 = \<lparr>p_filepath = src, p_filename = name,
                 p_file_size = (case getsize env of None \<Rightarrow> 0 | Some n \<Rightarrow> n),
                 p_maintype = None, p_subtype = None, p_extension = None,
                 p_safety_category = None, p_symlink = None, p_copied = False,
                 p_description_string = [], p_errors = [], p_user_defined = []\<rparr>;
          f0 = \<lparr>src_path = src, dst_path = dst, filename = name, file_props = ps0,
                extension = ext, mimetype = None, should_copy = True,
                main_type = None, sub_type = None, is_recursive = False,
                tempdir_path = [], metadata_file_path = None\<rparr>;
          f1 = set_property f0 (Set_extension ext);
          f2 = (case readlink env of
                  Some target \<Rightarrow>
                    (set_property f1 (Set_symlink target))\<lparr>mimetype := Some (lit ''inode/symlink'')\<rparr>
                | None \<Rightarrow>
                    (case magic_from_file env of
                       Mime mt \<Rightarrow> f1\<lparr>mimetype := Some mt\<rparr>
                     | MagicUnicodeEncodeError \<Rightarrow> add_error f1 UnicodeEncodeError []))
      in if truthy (mimetype f2)
         then (case split_subtypes (the (mimetype f2)) of
                 Inl e \<Rightarrow> Inl e
               | Inr (mn, sb) \<Rightarrow>
                   (let f3 = f2\<lparr>main_type := mn, sub_type := sb\<rparr>;
                        f4 = (if truthy mn then set_property f3 (Set_maintype (the mn)) else f3);
                        f5 = (if truthy sb then set_property f4 (Set_subtype (the sb)) else f4)
                    in Inr f5))
         else Inr f2)"

definition has_mimetype :: "file_rec \<Rightarrow> bool" where
  "has_mimetype f = (if \<not> truthy (main_type f) \<or> \<not> truthy (sub_type f) then False else True)"

definition has_extension :: "file_rec \<Rightarrow> bool" where
  "has_extension f = (if extension f = None then False else True)"

definition is_dangerous :: "file_rec \<Rightarrow> bool" where
  "is_dangerous f = (p_safety_category (file_props f) = Some dangerous)"

definition is_unknown :: "file_rec \<Rightarrow> bool" where
  "is_unknown f = (p_safety_category (file_props f) = Some unknown)"

definition is_binary :: "file_rec \<Rightarrow> bool" where
  "is_binary f = (p_safety_category (file_props f) = Some binary)"

definition is_symlink :: "file_rec \<Rightarrow> bool" where
  "is_symlink f = (p_symlink (file_props f) \<noteq> None)"

definition make_dangerous :: "file_rec \<Rightarrow> pystr option \<Rightarrow> file_rec" where
  "make_dangerous f reason_string =
     (if is_dangerous f then set_property f (Set_description_string reason_string)
      else
        (let f1 = set_property f (Set_safety_category dangerous);
             f2 = set_property f1 (Set_description_string reason_string);
             (path, name) = path_split (dst_path f2)
         in f2\<lparr>dst_path := path_join path (lit ''DANGEROUS_'' @ name @ lit ''_DANGEROUS'')\<rparr>))"

definition make_unknown :: "file_rec \<Rightarrow> file_rec" where
  "make_unknown f =
     (if is_dangerous f \<or> is_binary f then f
      else
        (let f1 = set_property f (Set_safety_category unknown);
             (path, name) = path_split (dst_path f1)
         in f1\<lparr>dst_path := path_join path (lit ''UNKNOWN_'' @ name)\<rparr>))"

definition make_binary :: "file_rec \<Rightarrow> file_rec" where
  "make_binary f =
     (if is_dangerous f then f
      else
        (let f1 = set_property f (Set_safety_category binary);
             (path, name) = path_split (dst_path f1)
         in f1\<lparr>dst_path := path_join path (name @ lit ''.bin'')\<rparr>))"

definition check_leading_dot :: "pystr \<Rightarrow> pystr" where
  "check_leading_dot ext =
     (if length ext > 0 then (if \<not> startswith ext [46] then [46] @ ext else ext) else ext)"

definition force_ext :: "file_rec \<Rightarrow> pystr \<Rightarrow> file_rec" where
  "force_ext f ext0 =
     (let ext = check_leading_dot ext0;
          f1 = (if \<not> endswith (dst_path f) ext then f\<lparr>dst_path := dst_path f @ ext\<rparr> else f)
      in if \<not> (p_extension (file_props f1) = Some ext)
         then set_property f1 (Set_extension (Some ext)) else f1)"

definition safe_copy :: "filesystem \<Rightarrow> file_rec \<Rightarrow> filesystem \<times> file_rec" where
  \<comment> \<open>\<open>safe_copy()\<close> with its default arguments; every exception of \<open>os.makedirs\<close>
      and \<open>shutil.copy\<close> is recorded on the file, and nothing is copied then\<close>
  "safe_copy fs f =
     (let (dir, name) = path_split (dst_path f)
      in case (if \<not> exists_path fs dir then makedirs fs dir else Inr fs) of
           Inl e \<Rightarrow> (fs, add_error f e [])
         | Inr fs1 \<Rightarrow>
             (case shutil_copy fs1 (src_path f) (dst_path f) of
                Inl e \<Rightarrow> (fs1, add_error f e [])
              | Inr fs2 \<Rightarrow> (fs2, f)))"

definition create_metadata_file ::
  "filesystem \<Rightarrow> file_rec \<Rightarrow> pystr \<Rightarrow> pyerror + filesystem \<times> file_rec \<times> pystr option" where
  \<comment> \<open>the result \<open>None\<close> is the source's \<open>False\<close>; only KittenGroomerError is caught,
      an exception of \<open>os.makedirs\<close> leaves the function\<close>
  "create_metadata_file fs f ext0 =
     (let ext = check_leading_dot ext0
      in if exists_path fs (src_path f @ ext)
         then Inr (fs, add_error f KittenGroomerError [], None)
         else
           (let (dst_dir_path, name) = path_split (dst_path f)
            in case (if \<not> exists_path fs dst_dir_path then makedirs fs dst_dir_path else Inr fs) of
                 Inl e \<Rightarrow> Inl e
               | Inr fs1 \<Rightarrow>
                   Inr (fs1, f\<lparr>metadata_file_path := Some (dst_path f @ ext)\<rparr>,
                        Some (dst_path f @ ext))))"

section \<open>Config and File (bin/filecheck.py)\<close>

definition mimes_ooxml :: "pystr list" where
  "mimes_ooxml = [lit ''vnd.openxmlformats-officedocument.'']"

definition mimes_office :: "pystr list" where
  "mimes_office = [lit ''msword'', lit ''vnd.ms-'']"

definition mimes_libreoffice :: "pystr list" where
  "mimes_libreoffice = [lit ''vnd.oasis.opendocument'']"

definition mimes_rtf :: "pystr list" where
  "mimes_rtf = [lit ''rtf'', lit ''richtext'']"

definition mimes_pdf :: "pystr list" where
  "mimes_pdf = [lit ''pdf'', lit ''postscript'']"

definition mimes_xml :: "pystr list" where
  "mimes_xml = [lit ''xml'']"

definition mimes_ms :: "pystr list" where
  "mimes_ms = [lit ''dosexec'']"

definition mimes_compressed :: "pystr list" where
  "mimes_compressed = [lit ''zip'', lit ''rar'', lit ''bzip2'', lit ''lzip'', lit ''lzma'',
     lit ''lzop'', lit ''xz'', lit ''compress'', lit ''gzip'', lit ''tar'']"

definition mimes_data :: "pystr list" where
  "mimes_data = [lit ''octet-stream'']"

definition mimes_exif :: "pystr list" where
  "mimes_exif = [lit ''image/jpeg'', lit ''image/tiff'']"

definition mimes_png :: "pystr list" where
  "mimes_png = [lit ''image/png'']"

definition mimes_metadata :: "pystr list" where
  "mimes_metadata = [lit ''image/jpeg'', lit ''image/tiff'', lit ''image/png'']"

definition malicious_exts :: "pystr list" where
  "malicious_exts = map lit
     [''.exe'', ''.pif'', ''.application'', ''.gadget'', ''.msi'', ''.msp'', ''.com'', ''.scr'',
      ''.hta'', ''.cpl'', ''.msc'', ''.jar'',
      ''.bat'', ''.cmd'', ''.vb'', ''.vbs'', ''.vbe'', ''.js'', ''.jse'', ''.ws'', ''.wsf'',
      ''.wsc'', ''.wsh'', ''.ps1'', ''.ps1xml'', ''.ps2'', ''.ps2xml'', ''.psc1'', ''.psc2'',
      ''.msh'', ''.msh1'', ''.msh2'', ''.mshxml'', ''.msh1xml'', ''.msh2xml'',
      ''.scf'', ''.lnk'', ''.inf'',
      ''.reg'', ''.dll'',
      ''.docm'', ''.dotm'', ''.xlsm'', ''.xltm'', ''.xlam'', ''.pptm'', ''.potm'', ''.ppam'',
      ''.ppsm'', ''.sldm'',
      ''.asf'', ''.asx'', ''.au'', ''.htm'', ''.html'', ''.mht'', ''.vbs'',
      ''.wax'', ''.wm'', ''.wma'', ''.wmd'', ''.wmv'', ''.wmx'', ''.wmz'', ''.wvx'']"

definition aliases :: "(pystr \<times> pystr) list" where
  "aliases =
     [(lit ''application/x-msdos-program'', lit ''application/x-dosexec''),
      (lit ''application/x-dosexec'', lit ''application/x-msdos-program''),
      (lit ''application/rtf'', lit ''text/rtf'')]"

definition override_ext :: "(pystr \<times> pystr) list" where
  "override_ext = [(lit ''.gz'', lit ''application/gzip'')]"

text \<open>
  The standard module \<open>mimetypes\<close> is a parameter: \<open>guess_type\<close> (with
  \<open>strict=False\<close>, first component of the result), the table \<open>types_map\<close> and
  \<open>guess_all_extensions\<close>.
\<close>

record mimetypes_mod =
  guess_type :: "pystr \<Rightarrow> pystr option"
  types_map :: "(pystr \<times> pystr) list"
  guess_all_extensions :: "pystr \<Rightarrow> pystr list"

datatype handler =
    M_text | M_audio | M_image | M_video | M_application | M_example | M_message
  | M_model | M_multipart | M_inode | M_unknown
  | M_winoffice | M_ooxml | M_libreoffice | M_pdf | M_executables | M_archive
  | M_binary_app | M_metadata_exif | M_metadata_png

definition make_method_dict :: "(pystr list \<times> handler) list \<Rightarrow> (pystr \<times> handler) list" where
  \<comment> \<open>a dict keeps the insertion order of its keys\<close>
  "make_method_dict list_of_tuples =
     foldl (\<lambda>d (list_of_subtypes, m). foldl (\<lambda>d subtype. AList.update subtype m d) d list_of_subtypes)
       [] list_of_tuples"

definition app_subtype_methods :: "(pystr \<times> handler) list" where
  "app_subtype_methods = make_method_dict
     [(mimes_office, M_winoffice),
      (mimes_ooxml, M_ooxml),
      (mimes_rtf, M_text),
      (mimes_libreoffice, M_libreoffice),
      (mimes_pdf, M_pdf),
      (mimes_xml, M_text),
      (mimes_ms, M_executables),
      (mimes_compressed, M_archive),
      (mimes_data, M_binary_app)]"

definition metadata_mimetype_methods :: "(pystr \<times> handler) list" where
  "metadata_mimetype_methods = make_method_dict
     [(mimes_exif, M_metadata_exif),
      (mimes_png, M_metadata_png)]"

definition mime_processing_options :: "(pystr \<times> handler) list" where
  "mime_processing_options =
     [(lit ''text'', M_text),
      (lit ''audio'', M_audio),
      (lit ''image'', M_image),
      (lit ''video'', M_video),
      (lit ''application'', M_application),
      (lit ''example'', M_example),
      (lit ''message'', M_message),
      (lit ''model'', M_model),
      (lit ''multipart'', M_multipart),
      (lit ''inode'', M_inode)]"

definition File_init :: "fenv \<Rightarrow> pystr \<Rightarrow> pystr \<Rightarrow> pyerror + file_rec" where
  \<comment> \<open>\<open>File.__init__\<close>; the dispatch tables it builds are the constants above\<close>
  "File_init env src dst =
     (case FileBase_init env src dst of
        Inl e \<Rightarrow> Inl e
      | Inr f \<Rightarrow> Inr (f\<lparr>is_recursive := False, tempdir_path := dst_path f @ lit ''_temp''\<rparr>))"

definition check_dangerous :: "file_rec \<Rightarrow> file_rec" where
  "check_dangerous f =
     (let f1 = (if \<not> has_mimetype f then make_dangerous f (Some (lit ''File has no mimetype'')) else f);
          f2 = (if \<not> has_extension f1 then make_dangerous f1 (Some (lit ''File has no extension'')) else f1)
      in if (case extension f2 of None \<Rightarrow> False | Some ext \<Rightarrow> ext \<in> set malicious_exts)
         then make_dangerous f2 (Some (lit ''Extension identifies file as potentially dangerous''))
         else f2)"

definition check_extension :: "mimetypes_mod \<Rightarrow> file_rec \<Rightarrow> file_rec" where
  "check_extension mt f =
     (let expected_mimetype =
            (case (case extension f of None \<Rightarrow> None | Some ext \<Rightarrow> map_of override_ext ext) of
               Some m \<Rightarrow> Some m
             | None \<Rightarrow>
                 (case guess_type mt (src_path f) of
                    None \<Rightarrow> None
                  | Some m \<Rightarrow> (case map_of aliases m of Some a \<Rightarrow> Some a | None \<Rightarrow> Some m)));
          is_known_extension =
            (case extension f of None \<Rightarrow> False | Some ext \<Rightarrow> ext \<in> fst ` set (types_map mt))
      in if is_known_extension \<and> expected_mimetype \<noteq> mimetype f
         then make_dangerous f (Some (lit ''Mimetype does not match expected mimetype for this extension''))
         else f)"

definition check_mimetype :: "mimetypes_mod \<Rightarrow> file_rec \<Rightarrow> pyerror + file_rec" where
  \<comment> \<open>\<open>guess_all_extensions(None)\<close> raises AttributeError\<close>
  "check_mimetype mt f =
     (case mimetype f of
        None \<Rightarrow> Inl AttributeError
      | Some m0 \<Rightarrow>
          (let m = (case map_of aliases m0 of Some a \<Rightarrow> a | None \<Rightarrow> m0);
               expected_extensions = guess_all_extensions mt m
           in if expected_extensions \<noteq> [] \<and> has_extension f \<and>
                 the (extension f) \<notin> set expected_extensions
              then Inr (make_dangerous f
                     (Some (lit ''Extension does not match expected extensions for this mimetype'')))
              else Inr f))"

definition check_filename :: "file_rec \<Rightarrow> pyerror + file_rec" where
  \<comment> \<open>\<open>self.filename[0]\<close> raises IndexError on an empty name\<close>
  "check_filename f =
     (if filename f = [] then Inl IndexError
      else if right_to_left_override \<in> set (filename f)
      then (let f1 = make_dangerous f (Some (lit ''Filename contains dangerous character''))
            in Inr (f1\<lparr>dst_path := replace_char right_to_left_override (dst_path f1)\<rparr>))
      else Inr f)"

definition has_metadata :: "file_rec \<Rightarrow> bool" where
  "has_metadata f = (case mimetype f of None \<Rightarrow> False | Some m \<Rightarrow> m \<in> set mimes_metadata)"

definition make_tempdir :: "filesystem \<Rightarrow> file_rec \<Rightarrow> pyerror + filesystem" where
  "make_tempdir fs f =
     (if \<not> exists_path fs (tempdir_path f) then makedirs fs (tempdir_path f) else Inr fs)"

subsection \<open>Handlers by main type\<close>

definition inode :: "file_rec \<Rightarrow> file_rec" where
  "inode f =
     (let f1 = (if is_symlink f
                then add_description f
                       (lit ''File is a symlink to '' @ the (p_symlink (file_props f)))
                else add_description f (lit ''File is an inode (empty file)''))
      in f1\<lparr>should_copy := False\<rparr>)"

definition unknown_handler :: "file_rec \<Rightarrow> file_rec" where
  \<comment> \<open>\<open>File.unknown\<close>\<close>
  "unknown_handler f = (add_description f (lit ''Unknown mimetype''))\<lparr>should_copy := False\<rparr>"

definition example :: "file_rec \<Rightarrow> file_rec" where
  "example f = (add_description f (lit ''Example file''))\<lparr>should_copy := False\<rparr>"

definition multipart :: "file_rec \<Rightarrow> file_rec" where
  "multipart f =
     (add_description f (lit ''Multipart file - usually found in web apps''))\<lparr>should_copy := False\<rparr>"

definition message :: "file_rec \<Rightarrow> file_rec" where
  "message f = make_dangerous f (Some (lit ''Message file - should not be found on USB key''))"

definition model :: "file_rec \<Rightarrow> file_rec" where
  "model f = make_dangerous f (Some (lit ''Model file - should not be found on USB key''))"

definition ooxml :: "fenv \<Rightarrow> file_rec \<Rightarrow> file_rec" where
  "ooxml env f =
     (case Document env of
        None \<Rightarrow> make_dangerous f (Some (lit ''Invalid ooxml file''))
      | Some doc \<Rightarrow>
          (let f1 = (if is_macro_enabled doc \<or> features_macros doc > 0
                     then make_dangerous f (Some (lit ''Ooxml file containing macro'')) else f);
               f2 = (if features_embedded_controls doc > 0
                     then make_dangerous f1 (Some (lit ''Ooxml file with activex'')) else f1);
               f3 = (if features_embedded_objects doc > 0
                     then make_dangerous f2 (Some (lit ''Ooxml file with embedded objects'')) else f2)
           in if features_embedded_packages doc > 0
              then make_dangerous f3 (Some (lit ''Ooxml file with embedded packages'')) else f3))"

definition text_handler :: "fenv \<Rightarrow> file_rec \<Rightarrow> pyerror + file_rec" where
  \<comment> \<open>\<open>File.text\<close>; \<open>mt in None\<close> raises TypeError\<close>
  "text_handler env f =
     (case sub_type f of
        None \<Rightarrow> Inl TypeError
      | Some st \<Rightarrow>
          (if list_ex (\<lambda>mt. py_in mt st) mimes_rtf
           then Inr (force_ext (add_description f (lit ''Rich Text (rtf) file'')) (lit ''.txt''))
           else if list_ex (\<lambda>mt. py_in mt st) mimes_ooxml
           then Inr (ooxml env (add_description f (lit ''OOXML (openoffice) file'')))
           else Inr (force_ext (add_description f (lit ''Plain text file'')) (lit ''.txt''))))"

definition media_processing :: "file_rec \<Rightarrow> file_rec" where
  "media_processing f = add_description f (lit ''Media file'')"

definition audio :: "file_rec \<Rightarrow> file_rec" where
  "audio f = media_processing (add_description f (lit ''Audio file''))"

definition video :: "file_rec \<Rightarrow> file_rec" where
  "video f = media_processing (add_description f (lit ''Video file''))"

subsection \<open>Handlers by application subtype\<close>

definition executables :: "file_rec \<Rightarrow> file_rec" where
  "executables f = make_dangerous f (Some (lit ''Executable file''))"

definition has_macro_stream :: "ole_file \<Rightarrow> bool" where
  \<comment> \<open>the four \<open>ole.exists(...)\<close> tests of \<open>_winoffice\<close>\<close>
  "has_macro_stream ole =
     (ole_exists ole (lit ''macros/vba'') \<or> ole_exists ole (lit ''Macros'') \<or>
      ole_exists ole (lit ''_VBA_PROJECT_CUR'') \<or> ole_exists ole (lit ''VBA''))"

definition winoffice :: "fenv \<Rightarrow> file_rec \<Rightarrow> pyerror + file_rec" where
  \<comment> \<open>when \<open>OleFileIO\<close> raises, the handler marks the file dangerous and goes on to read
      \<open>ole.parsing_issues\<close>; \<open>ole\<close> was never bound, so UnboundLocalError is raised\<close>
  "winoffice env f =
     (if \<not> isOleFile env
      then (case OleFileIO env of
              None \<Rightarrow>
                (let f1 = make_dangerous f (Some (lit ''Unparsable WinOffice file''))
                 in Inl UnboundLocalError)
            | Some ole \<Rightarrow>
                (let f1 = (if parsing_issues ole
                           then make_dangerous f (Some (lit ''Parsing issues with WinOffice file''))
                           else if has_macro_stream ole
                           then make_dangerous f (Some (lit ''WinOffice file containing a macro''))
                           else f)
                 in Inr (add_description f1 (lit ''WinOffice file''))))
      else
        (let oid = OleID_check env;
             f1 = (if encrypted oid
                   then make_dangerous f (Some (lit ''Encrypted WinOffice file'')) else f);
             f2 = (if macros oid \<or> has_macro_stream (oid_ole oid)
                   then make_dangerous f1 (Some (lit ''WinOffice file containing a macro'')) else f1);
             f3 = foldl (\<lambda>f (i_id, i_value).
                      if i_id = lit ''ObjectPool'' \<and> i_value
                      then add_description f (lit ''WinOffice file containing an object pool'')
                      else if i_id = lit ''flash'' \<and> i_value
                      then make_dangerous f (Some (lit ''WinOffice file with embedded flash''))
                      else f) f2 (indicators oid)
         in Inr (add_description f3 (lit ''WinOffice file''))))"

definition libreoffice :: "fenv \<Rightarrow> file_rec \<Rightarrow> pyerror + file_rec" where
  \<comment> \<open>when \<open>ZipFile\<close> raises, the handler marks the file dangerous and goes on to
      \<open>lodoc.infolist()\<close>; \<open>lodoc\<close> was never bound, so UnboundLocalError is raised\<close>
  "libreoffice env f =
     (case ZipFile_infolist env of
        None \<Rightarrow>
          (let f1 = make_dangerous f (Some (lit ''Invalid libreoffice file''))
           in Inl UnboundLocalError)
      | Some names \<Rightarrow>
          (let f1 = foldl (\<lambda>f name.
                      (let fname = str_lower env name
                       in if startswith fname (lit ''script'') \<or> startswith fname (lit ''basic'') \<or>
                             startswith fname (lit ''object'') \<or> endswith fname (lit ''.bin'')
                          then make_dangerous f (Some (lit ''Libreoffice file containing executable code''))
                          else f)) f names
           in Inr (if \<not> is_dangerous f1 then add_description f1 (lit ''Libreoffice file'') else f1)))"

definition pdf :: "fenv \<Rightarrow> file_rec \<Rightarrow> file_rec" where
  "pdf env f =
     (let oPDFiD = PDFiD env;
          f1 = (if encrypt_count oPDFiD > 0 then make_dangerous f (Some (lit ''Encrypted pdf'')) else f);
          f2 = (if js_count oPDFiD > 0 \<or> javascript_count oPDFiD > 0
                then make_dangerous f1 (Some (lit ''Pdf with embedded javascript'')) else f1);
          f3 = (if aa_count oPDFiD > 0 \<or> openaction_count oPDFiD > 0
                then make_dangerous f2 (Some (lit ''Pdf with openaction(s)'')) else f2);
          f4 = (if richmedia_count oPDFiD > 0
                then make_dangerous f3 (Some (lit ''Pdf containing flash'')) else f3);
          f5 = (if launch_count oPDFiD > 0
                then make_dangerous f4 (Some (lit ''Pdf with launch action(s)'')) else f4)
      in if \<not> is_dangerous f5 then add_description f5 (lit ''Pdf file'') else f5)"

definition archive :: "file_rec \<Rightarrow> file_rec" where
  "archive f = (add_description f (lit ''Archive''))\<lparr>should_copy := False, is_recursive := True\<rparr>"

definition unknown_app :: "file_rec \<Rightarrow> file_rec" where
  "unknown_app f = make_unknown (add_description f (lit ''Unknown application file''))"

definition binary_app :: "file_rec \<Rightarrow> file_rec" where
  "binary_app f = make_binary (add_description f (lit ''Unknown binary file''))"

definition call_app_method :: "handler \<Rightarrow> fenv \<Rightarrow> file_rec \<Rightarrow> pyerror + file_rec" where
  \<comment> \<open>calling a value of \<open>app_subtype_methods\<close>\<close>
  "call_app_method m env f =
     (case m of
        M_winoffice \<Rightarrow> winoffice env f
      | M_ooxml \<Rightarrow> Inr (ooxml env f)
      | M_text \<Rightarrow> text_handler env f
      | M_libreoffice \<Rightarrow> libreoffice env f
      | M_pdf \<Rightarrow> Inr (pdf env f)
      | M_executables \<Rightarrow> Inr (executables f)
      | M_archive \<Rightarrow> Inr (archive f)
      | M_binary_app \<Rightarrow> Inr (binary_app f)
      | _ \<Rightarrow> Inr f)"

definition application :: "fenv \<Rightarrow> file_rec \<Rightarrow> pyerror + file_rec" where
  \<comment> \<open>the first subtype of the table that occurs in \<open>sub_type\<close> decides\<close>
  "application env f =
     (case sub_type f of
        None \<Rightarrow> Inl TypeError
      | Some st \<Rightarrow>
          (case find (\<lambda>(subtype, m). py_in subtype st) app_subtype_methods of
             Some (subtype, m) \<Rightarrow> call_app_method m env f
           | None \<Rightarrow> Inr (unknown_app f)))"

subsection \<open>Metadata and images\<close>

fun write_tags ::
  "(pystr \<Rightarrow> bool) \<Rightarrow> filesystem \<Rightarrow> pystr option \<Rightarrow> (pystr \<times> pystr) list \<Rightarrow> pyerror + filesystem" where
  \<comment> \<open>every retained tag opens the sidecar with mode \<open>w+\<close> and writes one line; the path
      \<open>False\<close> of a failed \<open>create_metadata_file\<close> is modelled as \<open>open\<close> raising\<close>
  "write_tags keep fs path [] = Inr fs"
| "write_tags keep fs path ((tag, v) # ts) =
     (if keep tag
      then (case path of
              None \<Rightarrow> Inl OSError
            | Some p \<Rightarrow>
                (case write_file fs p (lit ''Key: '' @ tag @ [9] @ lit ''Value: '' @ v @ [10]) of
                   Inl e \<Rightarrow> Inl e
                 | Inr fs1 \<Rightarrow> write_tags keep fs1 path ts))
      else write_tags keep fs path ts)"

definition metadata_exif :: "fenv \<Rightarrow> filesystem \<Rightarrow> file_rec \<Rightarrow> pystr option \<Rightarrow> pyerror + (filesystem \<times> file_rec)" where
  \<comment> \<open>\<open>open(self.src_path, 'rb')\<close> and the writes of the sidecar are outside \<open>try\<close>\<close>
  "metadata_exif env fs f mpath =
     (let keep = (\<lambda>tag. tag \<notin> {lit ''JPEGThumbnail'', lit ''TIFFThumbnail''});
          retry = add_error f ParseError
                    (lit ''Error while trying to grab full metadata for file '' @ src_path f @
                     lit ''; retrying for partial data.'')
      in case stat fs (src_path f) of
           None \<Rightarrow> Inl FileNotFoundError
         | Some DirObj \<Rightarrow> Inl IsADirectoryError
         | Some (FileObj c) \<Rightarrow>
             (case exif_process_file env of
                ExifTags tags \<Rightarrow>
                  (case write_tags keep fs mpath tags of
                     Inl e \<Rightarrow> Inl e
                   | Inr fs1 \<Rightarrow> Inr (fs1, set_property f (Set_user (lit ''metadata'') (lit ''exif''))))
              | ExifRetryTags tags \<Rightarrow>
                  (case write_tags keep fs mpath tags of
                     Inl e \<Rightarrow> Inl e
                   | Inr fs1 \<Rightarrow> Inr (fs1, set_property retry (Set_user (lit ''metadata'') (lit ''exif''))))
              | ExifFails \<Rightarrow>
                  Inr (fs, add_error retry ParseError
                             (lit ''Failed to get any metadata for file '' @ src_path f @ lit ''.''))))"

definition metadata_png :: "fenv \<Rightarrow> filesystem \<Rightarrow> file_rec \<Rightarrow> pystr option \<Rightarrow> filesystem \<times> file_rec" where
  \<comment> \<open>the whole body is inside \<open>try\<close>: every exception marks the file dangerous\<close>
  "metadata_png env fs f mpath =
     (let caught = (\<lambda>e. make_dangerous
                      (add_error f e (lit ''Caught exception processing metadata for '' @ src_path f))
                      (Some (lit ''exception processing metadata'')))
      in case png_info env of
           None \<Rightarrow> (fs, caught ParseError)
         | Some tags \<Rightarrow>
             (case write_tags (\<lambda>tag. \<not> py_in tag (lit ''icc_profile'')) fs mpath tags of
                Inl e \<Rightarrow> (fs, caught e)
              | Inr fs1 \<Rightarrow> (fs1, set_property f (Set_user (lit ''metadata'') (lit ''png'')))))"

definition extract_metadata :: "fenv \<Rightarrow> filesystem \<Rightarrow> file_rec \<Rightarrow> pyerror + (filesystem \<times> file_rec)" where
  "extract_metadata env fs f =
     (case create_metadata_file fs f (lit ''.metadata.txt'') of
        Inl e \<Rightarrow> Inl e
      | Inr (fs1, f1, mpath) \<Rightarrow>
          (case (case mimetype f1 of None \<Rightarrow> None | Some mt \<Rightarrow> map_of metadata_mimetype_methods mt) of
             Some M_metadata_exif \<Rightarrow> metadata_exif env fs1 f1 mpath
           | Some M_metadata_png \<Rightarrow> Inr (metadata_png env fs1 f1 mpath)
           | _ \<Rightarrow> Inr (fs1, f1)))"

definition image :: "fenv \<Rightarrow> filesystem \<Rightarrow> file_rec \<Rightarrow> pyerror + (filesystem \<times> file_rec)" where
  \<comment> \<open>\<open>make_tempdir\<close> is outside \<open>try\<close>; decoding and saving the image are inside\<close>
  "image env fs f =
     (case (if has_metadata f then extract_metadata env fs f else Inr (fs, f)) of
        Inl e \<Rightarrow> Inl e
      | Inr (fs1, f1) \<Rightarrow>
          (case make_tempdir fs1 f1 of
             Inl e \<Rightarrow> Inl e
           | Inr fs2 \<Rightarrow>
               (let tempfile_path = path_join (tempdir_path f1) (filename f1);
                    caught = (\<lambda>e. make_dangerous
                                (add_error f1 e
                                   (lit ''Caught exception (possible decompression bomb?) while translating file ''
                                    @ src_path f1 @ lit ''.''))
                                (Some (lit ''Image file containing decompression bomb'')));
                    (fs3, f2) =
                      (case image_reencode env of
                         None \<Rightarrow> (fs2, caught ParseError)
                       | Some bytes \<Rightarrow>
                           (case write_file fs2 tempfile_path bytes of
                              Inl e \<Rightarrow> (fs2, caught e)
                            | Inr fs3 \<Rightarrow> (fs3, f1\<lparr>src_path := tempfile_path\<rparr>)))
                in Inr (fs3, if \<not> is_dangerous f2 then add_description f2 (lit ''Image file'') else f2))))"

subsection \<open>check\<close>

definition call_method :: "handler \<Rightarrow> fenv \<Rightarrow> filesystem \<Rightarrow> file_rec \<Rightarrow> pyerror + (filesystem \<times> file_rec)" where
  \<comment> \<open>calling a value of \<open>mime_processing_options\<close>, or the default \<open>self.unknown\<close>\<close>
  "call_method m env fs f =
     (case m of
        M_text \<Rightarrow> map_sum id (Pair fs) (text_handler env f)
      | M_audio \<Rightarrow> Inr (fs, audio f)
      | M_image \<Rightarrow> image env fs f
      | M_video \<Rightarrow> Inr (fs, video f)
      | M_application \<Rightarrow> map_sum id (Pair fs) (application env f)
      | M_example \<Rightarrow> Inr (fs, example f)
      | M_message \<Rightarrow> Inr (fs, message f)
      | M_model \<Rightarrow> Inr (fs, model f)
      | M_multipart \<Rightarrow> Inr (fs, multipart f)
      | M_inode \<Rightarrow> Inr (fs, inode f)
      | _ \<Rightarrow> Inr (fs, unknown_handler f))"

definition check :: "mimetypes_mod \<Rightarrow> fenv \<Rightarrow> filesystem \<Rightarrow> file_rec \<Rightarrow> pyerror + (filesystem \<times> file_rec)" where
  "check mt env fs f =
     (case check_filename (check_dangerous f) of
        Inl e \<Rightarrow> Inl e
      | Inr f2 \<Rightarrow>
          (case (let f3 = (if has_extension f2 then check_extension mt f2 else f2)
                 in if has_mimetype f3 then check_mimetype mt f3 else Inr f3) of
             Inl e \<Rightarrow> Inl e
           | Inr f4 \<Rightarrow>
               (if \<not> is_dangerous f4
                then call_method
                       (case (case main_type f4 of None \<Rightarrow> None
                              | Some t \<Rightarrow> map_of mime_processing_options t) of
                          None \<Rightarrow> M_unknown | Some m \<Rightarrow> m) env fs f4
                else Inr (fs, f4))))"

section \<open>GroomerLogger and KittenGroomerFileCheck (bin/filecheck.py)\<close>

text \<open>
  One call of \<open>_write_line_to_log\<close> appends one line to the log. A line is modelled as
  the arguments of the \<open>add_file\<close> or \<open>add_dir\<close> call that formats it: the path, the
  properties at the time of the call, the content whose digest is printed, and the flag
  \<open>in_tempdir\<close>. \<open>log_lines\<close> holds the lines appended since the groomer was
  constructed. The indentation of a line, which is all the path depth is used for, is
  left out; what is kept of \<open>_get_path_depth\<close> is the choice of \<open>base_path\<close>, which
  is not bound when neither root the logger was given occurs in the path, and the
  refusal of an empty path by \<open>os.path.relpath\<close>. Opening the log for appending is
  taken to succeed.
\<close>

datatype log_entry = Log_dir pystr | Log_file pystr props "nat list" bool

record groomer =
  src_root_path :: pystr
  dst_root_path :: pystr
  logger_src_root_path :: pystr
  logger_dst_root_path :: pystr
  recursive_archive_depth :: int
  max_recursive_depth :: int
  log_lines :: "log_entry list"
  filesys :: filesystem

definition get_path_depth :: "groomer \<Rightarrow> pystr \<Rightarrow> pyerror + pystr" where
  \<comment> \<open>\<open>GroomerLogger._get_path_depth\<close>, up to the base path the depth is counted from\<close>
  "get_path_depth g path =
     (if py_in (logger_dst_root_path g) path
      then (if path = [] then Inl ValueError else Inr (logger_dst_root_path g))
      else if py_in (logger_src_root_path g) path
      then (if path = [] then Inl ValueError else Inr (logger_src_root_path g))
      else Inl UnboundLocalError)"

definition isfile :: "filesystem \<Rightarrow> pystr \<Rightarrow> bool" where
  \<comment> \<open>\<open>os.path.isfile\<close>\<close>
  "isfile fs p = (case stat fs p of Some (FileObj c) \<Rightarrow> True | _ \<Rightarrow> False)"

definition add_file :: "groomer \<Rightarrow> pystr \<Rightarrow> props \<Rightarrow> bool \<Rightarrow> pyerror + groomer" where
  \<comment> \<open>\<open>', '.join\<close> raises TypeError on a description that is \<open>None\<close>;
      \<open>Logging.computehash\<close> opens the file\<close>
  "add_file g file_path props_now in_tempdir =
     (case get_path_depth g file_path of
        Inl e \<Rightarrow> Inl e
      | Inr base_path \<Rightarrow>
          (if None \<in> set (p_description_string props_now) then Inl TypeError
           else (case stat (filesys g) file_path of
                   None \<Rightarrow> Inl FileNotFoundError
                 | Some DirObj \<Rightarrow> Inl IsADirectoryError
                 | Some (FileObj c) \<Rightarrow>
                     Inr (g\<lparr>log_lines := log_lines g @ [Log_file file_path props_now c in_tempdir]\<rparr>))))"

definition add_dir :: "groomer \<Rightarrow> pystr \<Rightarrow> pyerror + groomer" where
  "add_dir g dir_path =
     (case get_path_depth g dir_path of
        Inl e \<Rightarrow> Inl e
      | Inr base_path \<Rightarrow> Inr (g\<lparr>log_lines := log_lines g @ [Log_dir dir_path]\<rparr>))"

definition write_log :: "groomer \<Rightarrow> file_rec \<Rightarrow> pyerror + groomer" where
  \<comment> \<open>\<open>File.write_log\<close>, on the logger the groomer owns\<close>
  "write_log g f =
     (if \<not> is_recursive f \<and> exists_path (filesys g) (tempdir_path f)
      then add_file g (src_path f) (file_props f) True
      else add_file g (src_path f) (file_props f) False)"

definition safe_rmtree :: "filesystem \<Rightarrow> pystr \<Rightarrow> pyerror + filesystem" where
  "safe_rmtree fs directory_path =
     (if exists_path fs directory_path then rmtree fs directory_path else Inr fs)"

text \<open>
  What the external 7z process does for one archive: how the process ended, and the
  entries it left in the output directory. A directory tree is a list of nodes, in the
  order of \<open>sorted(os.listdir(...), key=str.lower)\<close>; a node that is neither a
  directory nor a regular file (a broken link) is \<open>OtherNode\<close>.
\<close>

datatype proc_outcome = Exited int | TimeoutExpired | SpawnFailed

datatype node =
    DirNode pystr "node list"
  | FileNode pystr fenv proc_outcome "node list"
  | OtherNode pystr

datatype qitem = QDir | QFile fenv proc_outcome "node list"

fun list_files_dirs :: "pystr \<Rightarrow> node list \<Rightarrow> (pystr \<times> qitem) list" where
  \<comment> \<open>the queue of full paths; each path carries what \<open>os.path.isdir\<close> and the
      collaborators will answer for it\<close>
  "list_files_dirs root_dir_path [] = []"
| "list_files_dirs root_dir_path (DirNode name kids # rest) =
     (path_join root_dir_path name, QDir)
       # list_files_dirs (path_join root_dir_path name) kids
       @ list_files_dirs root_dir_path rest"
| "list_files_dirs root_dir_path (FileNode name env oc extracted # rest) =
     (path_join root_dir_path name, QFile env oc extracted) # list_files_dirs root_dir_path rest"
| "list_files_dirs root_dir_path (OtherNode name # rest) = list_files_dirs root_dir_path rest"

fun populate :: "pystr \<Rightarrow> node list \<Rightarrow> filesystem \<Rightarrow> filesystem" where
  \<comment> \<open>the entries an extraction leaves under the output directory\<close>
  "populate dir [] fs = fs"
| "populate dir (DirNode name kids # rest) fs =
     populate dir rest (populate (path_join dir name) kids (fs(path_join dir name \<mapsto> DirObj)))"
| "populate dir (FileNode name env oc extracted # rest) fs =
     populate dir rest (fs(path_join dir name \<mapsto> FileObj (content env)))"
| "populate dir (OtherNode name # rest) fs = populate dir rest fs"

definition run_process :: "proc_outcome \<Rightarrow> pyerror + bool option" where
  \<comment> \<open>\<open>_run_process\<close>: CalledProcessError and TimeoutExpired are caught and \<open>None\<close> is
      returned; any other exception of \<open>check_call\<close> is not caught\<close>
  "run_process oc =
     (case oc of
        Exited rc \<Rightarrow> (if rc = 0 then Inr (Some True) else Inr None)
      | TimeoutExpired \<Rightarrow> Inr None
      | SpawnFailed \<Rightarrow> Inl OSError)"

definition copy_and_log :: "groomer \<Rightarrow> file_rec \<Rightarrow> pyerror + groomer \<times> file_rec" where
  \<comment> \<open>the body of \<open>if file.should_copy:\<close> in \<open>process_file\<close>\<close>
  "copy_and_log g f =
     (case safe_copy (filesys g) f of
        (fs1, f1) \<Rightarrow>
          (case write_log (g\<lparr>filesys := fs1\<rparr>) (set_property f1 (Set_copied True)) of
             Inl e \<Rightarrow> Inl e
           | Inr g1 \<Rightarrow> Inr (g1, set_property f1 (Set_copied True))))"

definition unpack :: "groomer \<Rightarrow> file_rec \<Rightarrow> proc_outcome \<Rightarrow> node list \<Rightarrow> pyerror + groomer" where
  \<comment> \<open>the \<open>else\<close> branch of \<open>process_archive\<close> up to the call of \<open>process_dir\<close>:
      \<open>make_tempdir\<close>, the 7z process and what it leaves, \<open>write_log\<close>\<close>
  "unpack g f oc extracted =
     (case make_tempdir (filesys g) f of
        Inl e \<Rightarrow> Inl e
      | Inr fs1 \<Rightarrow>
          (case run_process oc of
             Inl e \<Rightarrow> Inl e
           | Inr r \<Rightarrow> write_log (g\<lparr>filesys := populate (tempdir_path f) extracted fs1\<rparr>) f))"

definition cleanup :: "groomer \<Rightarrow> pystr \<Rightarrow> pyerror + groomer" where
  \<comment> \<open>\<open>self.safe_rmtree(path)\<close> on the groomer's filesystem\<close>
  "cleanup g directory_path =
     (case safe_rmtree (filesys g) directory_path of
        Inl e \<Rightarrow> Inl e
      | Inr fs1 \<Rightarrow> Inr (g\<lparr>filesys := fs1\<rparr>))"

fun nweight :: "node \<Rightarrow> nat" where
  "nweight (DirNode name kids) = 1 + sum_list (map nweight kids)"
| "nweight (FileNode name env oc extracted) = 4 + sum_list (map nweight extracted)"
| "nweight (OtherNode name) = 0"

fun qweight :: "pystr \<times> qitem \<Rightarrow> nat" where
  "qweight (p, QDir) = 1"
| "qweight (p, QFile env oc extracted) = 4 + sum_list (map nweight extracted)"

lemma qweight_list_files_dirs:
  "sum_list (map qweight (list_files_dirs root ns)) = sum_list (map nweight ns)"
  by (induction root ns rule: list_files_dirs.induct) simp_all

text \<open>
  An exception leaves \<open>process_dir\<close>, \<open>process_file\<close> and \<open>process_archive\<close> through
  every caller, since none of them has a handler: it is the result \<open>Inl\<close>.
\<close>

function process_dir :: "mimetypes_mod \<Rightarrow> groomer \<Rightarrow> pystr \<Rightarrow> pystr \<Rightarrow> node list \<Rightarrow> pyerror + groomer"
  and process_queue :: "mimetypes_mod \<Rightarrow> groomer \<Rightarrow> pystr \<Rightarrow> (pystr \<times> qitem) list \<Rightarrow> pyerror + groomer"
  and process_file :: "mimetypes_mod \<Rightarrow> groomer \<Rightarrow> file_rec \<Rightarrow> fenv \<Rightarrow> proc_outcome \<Rightarrow> node list \<Rightarrow> pyerror + groomer \<times> file_rec"
  and process_archive :: "mimetypes_mod \<Rightarrow> groomer \<Rightarrow> file_rec \<Rightarrow> proc_outcome \<Rightarrow> node list \<Rightarrow> pyerror + groomer \<times> file_rec"
where
  "process_dir mt g src_dir dst_dir nodes =
     process_queue mt g dst_dir (list_files_dirs src_dir nodes)"
| "process_queue mt g dst_dir [] = Inr g"
| "process_queue mt g dst_dir ((srcpath, QDir) # queue) =
     (case add_dir g srcpath of
        Inl e \<Rightarrow> Inl e
      | Inr g1 \<Rightarrow> process_queue mt g1 dst_dir queue)"
| "process_queue mt g dst_dir ((srcpath, QFile env oc extracted) # queue) =
     (case File_init env srcpath (path_join dst_dir (basename srcpath)) of
        Inl e \<Rightarrow> Inl e
      | Inr cur_file \<Rightarrow>
          (case process_file mt g cur_file env oc extracted of
             Inl e \<Rightarrow> Inl e
           | Inr (g1, f1) \<Rightarrow> process_queue mt g1 dst_dir queue))"
| "process_file mt g f env oc extracted =
     (case check mt env (filesys g) f of
        Inl e \<Rightarrow> Inl e
      | Inr (fs1, f1) \<Rightarrow>
          (case (if should_copy f1 then copy_and_log (g\<lparr>filesys := fs1\<rparr>) f1
                 else Inr (g\<lparr>filesys := fs1\<rparr>, f1)) of
             Inl e \<Rightarrow> Inl e
           | Inr (g3, f3) \<Rightarrow>
               (case (if is_recursive f3 then process_archive mt g3 f3 oc extracted
                      else Inr (g3, f3)) of
                  Inl e \<Rightarrow> Inl e
                | Inr (g4, f4) \<Rightarrow>
                    (case cleanup g4 (tempdir_path f4) of
                       Inl e \<Rightarrow> Inl e
                     | Inr g5 \<Rightarrow> Inr (g5, f4)))))"
| "process_archive mt g f oc extracted =
     (if recursive_archive_depth g + 1 \<ge> max_recursive_depth g
      then Inr (g\<lparr>recursive_archive_depth := recursive_archive_depth g + 1 - 1\<rparr>,
                make_dangerous f (Some (lit ''Archive bomb'')))
      else
        (case unpack (g\<lparr>recursive_archive_depth := recursive_archive_depth g + 1\<rparr>) f oc extracted of
           Inl e \<Rightarrow> Inl e
         | Inr g1 \<Rightarrow>
             (case process_dir mt g1 (tempdir_path f) (dst_path f) extracted of
                Inl e \<Rightarrow> Inl e
              | Inr g2 \<Rightarrow>
                  (case cleanup g2 (tempdir_path f) of
                     Inl e \<Rightarrow> Inl e
                   | Inr g3 \<Rightarrow>
                       Inr (g3\<lparr>recursive_archive_depth := recursive_archive_depth g3 - 1\<rparr>, f)))))"
  by pat_completeness auto
termination
  by (relation "measure (\<lambda>x. case x of
        Inl (Inl (mt, g, s, d, ns)) \<Rightarrow> sum_list (map nweight ns) + 1
      | Inl (Inr (mt, g, d, q)) \<Rightarrow> sum_list (map qweight q)
      | Inr (Inl (mt, g, f, env, oc, ns)) \<Rightarrow> sum_list (map nweight ns) + 3
      | Inr (Inr (mt, g, f, oc, ns)) \<Rightarrow> sum_list (map nweight ns) + 2)")
     (auto simp: qweight_list_files_dirs)

declare process_dir.simps [simp del] process_queue.simps [simp del]
  process_file.simps [simp del] process_archive.simps [simp del]

definition run :: "mimetypes_mod \<Rightarrow> groomer \<Rightarrow> node list \<Rightarrow> pyerror + groomer" where
  \<comment> \<open>\<open>KittenGroomerFileCheck.run\<close>, on a source tree given by its nodes\<close>
  "run mt g nodes = process_dir mt g (src_root_path g) (dst_root_path g) nodes"

section \<open>Concrete inputs\<close>

text \<open>
  A file for which every collaborator gives its least interesting answer, with a given
  sniffed mimetype and content; and a small instance of the module \<open>mimetypes\<close>. The
  names used below are made of ASCII letters, digits, dots, slashes and U+202E, on
  which \<open>str.lower\<close> is \<open>lower_ascii\<close>.
\<close>

definition lower_ascii :: "pystr \<Rightarrow> pystr" where
  "lower_ascii s = map (\<lambda>c. if 65 \<le> c \<and> c \<le> 90 then c + 32 else c) s"

definition fixture_env :: "pystr \<Rightarrow> nat list \<Rightarrow> fenv" where
  "fixture_env mt bytes =
     \<lparr>str_lower = lower_ascii,
      getsize = Some (length bytes), readlink = None, magic_from_file = Mime mt,
      content = bytes, isOleFile = False, OleFileIO = None,
      OleID_check = \<lparr>encrypted = False, macros = False,
                      oid_ole = \<lparr>parsing_issues = False, streams = []\<rparr>, indicators = []\<rparr>,
      Document = None, ZipFile_infolist = None,
      PDFiD = \<lparr>encrypt_count = 0, js_count = 0, javascript_count = 0, aa_count = 0,
                openaction_count = 0, richmedia_count = 0, launch_count = 0\<rparr>,
      exif_process_file = ExifFails, png_info = None, image_reencode = None\<rparr>"

definition fixture_types :: "(pystr \<times> pystr) list" where
  "fixture_types =
     [(lit ''.txt'', lit ''text/plain''),
      (lit ''.zip'', lit ''application/zip''),
      (lit ''.odt'', lit ''application/vnd.oasis.opendocument.text'')]"

definition fixture_mimetypes :: mimetypes_mod where
  "fixture_mimetypes =
     \<lparr>guess_type = (\<lambda>p. map_of fixture_types (lower_ascii (snd (splitext p)))),
      types_map = fixture_types,
      guess_all_extensions = (\<lambda>m. map fst (filter (\<lambda>(e, m'). m' = m) fixture_types))\<rparr>"

definition fixture_groomer :: "int \<Rightarrow> filesystem \<Rightarrow> groomer" where
  \<comment> \<open>a groomer for the roots \<open>/src\<close> and \<open>/dst\<close>, with \<open>max_recursive_depth\<close> and the
      filesystem given\<close>
  "fixture_groomer max_depth fs =
     \<lparr>src_root_path = lit ''/src'', dst_root_path = lit ''/dst'',
      logger_src_root_path = lit ''/src'', logger_dst_root_path = lit ''/dst'',
      recursive_archive_depth = 0, max_recursive_depth = max_depth, log_lines = [], filesys = fs\<rparr>"

definition fixture_filesystem :: filesystem where
  "fixture_filesystem = [lit ''/src'' \<mapsto> DirObj, lit ''/dst'' \<mapsto> DirObj]"

definition failed_extraction :: "node list" where
  "failed_extraction =
     [FileNode (lit ''a.zip'') (fixture_env (lit ''application/zip'') [80, 75]) (Exited 2)
        [FileNode (lit ''a.txt'') (fixture_env (lit ''text/plain'') [104, 105]) (Exited 0) []]]"

section \<open>Safety category\<close>

datatype mark_call = Make_dangerous "pystr option" | Make_unknown | Make_binary

fun apply_call :: "file_rec \<Rightarrow> mark_call \<Rightarrow> file_rec" where
  "apply_call f (Make_dangerous reason) = make_dangerous f reason"
| "apply_call f Make_unknown = make_unknown f"
| "apply_call f Make_binary = make_binary f"

definition safety_category :: "file_rec \<Rightarrow> category option" where
  "safety_category f = p_safety_category (file_props f)"

fun category_le :: "category option \<Rightarrow> category option \<Rightarrow> bool" where
  \<comment> \<open>the order normal, unknown, binary, dangerous\<close>
  "category_le None c = True"
| "category_le (Some unknown) c = (c = Some unknown \<or> c = Some binary \<or> c = Some dangerous)"
| "category_le (Some binary) c = (c = Some binary \<or> c = Some dangerous)"
| "category_le (Some dangerous) c = (c = Some dangerous)"

lemma safety_category_set_description [simp]:
  "safety_category (set_property f (Set_description_string d)) = safety_category f"
  by (simp add: safety_category_def set_property_def)

lemma safety_category_make_dangerous [simp]:
  "safety_category (make_dangerous f r) = Some dangerous"
  by (simp add: make_dangerous_def is_dangerous_def safety_category_def set_property_def
      split: prod.splits)

lemma safety_category_make_unknown:
  "safety_category (make_unknown f) =
     (if safety_category f = Some dangerous \<or> safety_category f = Some binary
      then safety_category f else Some unknown)"
  by (simp add: make_unknown_def is_dangerous_def is_binary_def safety_category_def set_property_def
      split: prod.splits)

lemma safety_category_make_binary:
  "safety_category (make_binary f) =
     (if safety_category f = Some dangerous then Some dangerous else Some binary)"
  by (simp add: make_binary_def is_dangerous_def safety_category_def set_property_def
      split: prod.splits)

lemma category_le_refl [simp]: "category_le c c"
  by (cases "(c, c)" rule: category_le.cases) auto

lemma category_le_trans: "category_le a b \<Longrightarrow> category_le b c \<Longrightarrow> category_le a c"
  by (cases "(a, b)" rule: category_le.cases) auto

lemma category_le_apply_call: "category_le (safety_category f) (safety_category (apply_call f c))"
proof (cases c)
  case (Make_dangerous r)
  then show ?thesis by (cases "(safety_category f, Some dangerous)" rule: category_le.cases) auto
next
  case Make_unknown
  then show ?thesis
    by (cases "(safety_category f, Some dangerous)" rule: category_le.cases)
       (auto simp: safety_category_make_unknown)
next
  case Make_binary
  then show ?thesis
    by (cases "(safety_category f, Some dangerous)" rule: category_le.cases)
       (auto simp: safety_category_make_binary)
qed

text \<open>
  C2, amended: over every sequence of \<open>make_dangerous\<close>, \<open>make_unknown\<close> and
  \<open>make_binary\<close> calls the safety category only moves up the order normal, unknown,
  binary, dangerous. So it never leaves dangerous, and \<open>make_unknown\<close> never overwrites
  binary; \<open>make_binary\<close> does overwrite unknown.
\<close>

theorem safety_category_monotone:
  "category_le (safety_category f) (safety_category (foldl apply_call f calls))"
proof (induction calls arbitrary: f)
  case Nil
  show ?case by simp
next
  case (Cons c calls)
  have "category_le (safety_category f) (safety_category (apply_call f c))"
    by (rule category_le_apply_call)
  moreover have "category_le (safety_category (apply_call f c))
      (safety_category (foldl apply_call (apply_call f c) calls))"
    by (rule Cons.IH)
  ultimately show ?case by (auto intro: category_le_trans)
qed

section \<open>The checks of a file\<close>

definition descriptions :: "file_rec \<Rightarrow> pystr option list" where
  "descriptions f = p_description_string (file_props f)"

lemma set_description_frame [simp]:
  "filename (set_property f u) = filename f"
  "src_path (set_property f u) = src_path f"
  "dst_path (set_property f u) = dst_path f"
  "mimetype (set_property f u) = mimetype f"
  "main_type (set_property f u) = main_type f"
  "sub_type (set_property f u) = sub_type f"
  "extension (set_property f u) = extension f"
  "should_copy (set_property f u) = should_copy f"
  "is_recursive (set_property f u) = is_recursive f"
  "tempdir_path (set_property f u) = tempdir_path f"
  by (simp_all add: set_property_def)

lemma make_dangerous_frame [simp]:
  "filename (make_dangerous f r) = filename f"
  "src_path (make_dangerous f r) = src_path f"
  "mimetype (make_dangerous f r) = mimetype f"
  "main_type (make_dangerous f r) = main_type f"
  "sub_type (make_dangerous f r) = sub_type f"
  "extension (make_dangerous f r) = extension f"
  "should_copy (make_dangerous f r) = should_copy f"
  "is_recursive (make_dangerous f r) = is_recursive f"
  "tempdir_path (make_dangerous f r) = tempdir_path f"
  "p_filename (file_props (make_dangerous f r)) = p_filename (file_props f)"
  by (simp_all add: make_dangerous_def set_property_def Let_def split: prod.splits)

lemma is_dangerous_make_dangerous [simp]: "is_dangerous (make_dangerous f r)"
  using safety_category_make_dangerous [of f r] by (simp add: is_dangerous_def safety_category_def)

lemma make_dangerous_again: "is_dangerous f \<Longrightarrow> dst_path (make_dangerous f r) = dst_path f"
  by (simp add: make_dangerous_def)

lemma descriptions_make_dangerous:
  "set (descriptions (make_dangerous f r)) = insert r (set (descriptions f))"
  by (auto simp: descriptions_def make_dangerous_def set_property_def Let_def split: prod.splits)

lemma has_mimetype_make_dangerous [simp]: "has_mimetype (make_dangerous f r) = has_mimetype f"
  by (simp add: has_mimetype_def)

lemma has_extension_make_dangerous [simp]: "has_extension (make_dangerous f r) = has_extension f"
  by (simp add: has_extension_def)

lemma check_dangerous_frame [simp]:
  "filename (check_dangerous f) = filename f"
  "src_path (check_dangerous f) = src_path f"
  "mimetype (check_dangerous f) = mimetype f"
  "main_type (check_dangerous f) = main_type f"
  "sub_type (check_dangerous f) = sub_type f"
  "extension (check_dangerous f) = extension f"
  "p_filename (file_props (check_dangerous f)) = p_filename (file_props f)"
  by (simp_all add: check_dangerous_def Let_def)

lemma check_dangerous_no_mimetype:
  "\<not> has_mimetype f \<Longrightarrow> is_dangerous (check_dangerous f) \<and>
     Some (lit ''File has no mimetype'') \<in> set (descriptions (check_dangerous f))"
  by (simp add: check_dangerous_def Let_def descriptions_make_dangerous)

lemma split_subtypes_no_slash: "47 \<notin> set mt \<Longrightarrow> split_subtypes mt = Inr (None, None)"
  by (simp add: split_subtypes_def)

text \<open>
  C10: a sniffed mimetype with no \<open>/\<close> in it (libmagic's bare \<open>data\<close>) is kept as the
  mimetype of the file, but \<open>main_type\<close> and \<open>sub_type\<close> are both \<open>None\<close>,
  \<open>has_mimetype\<close> is false, and the presence checks mark the file dangerous with the
  reason \<open>File has no mimetype\<close>.
\<close>

theorem bare_mimetype_is_dangerous:
  assumes "47 \<notin> set mt" and "readlink env = None" and "magic_from_file env = Mime mt"
  shows "\<exists>f. File_init env src dst = Inr f \<and> mimetype f = Some mt \<and>
           main_type f = None \<and> sub_type f = None \<and> \<not> has_mimetype f \<and>
           is_dangerous (check_dangerous f) \<and>
           Some (lit ''File has no mimetype'') \<in> set (descriptions (check_dangerous f))"
proof -
  have "\<exists>f. File_init env src dst = Inr f \<and> mimetype f = Some mt \<and>
           main_type f = None \<and> sub_type f = None"
    using assms
    by (cases "mt = []")
       (simp_all add: File_init_def FileBase_init_def Let_def split_subtypes_no_slash truthy_def)
  then obtain f where f: "File_init env src dst = Inr f" "mimetype f = Some mt"
      "main_type f = None" "sub_type f = None"
    by blast
  then have "\<not> has_mimetype f" by (simp add: has_mimetype_def truthy_def)
  with f check_dangerous_no_mimetype [of f] show ?thesis by blast
qed

theorem bare_mimetype_is_dangerous_witness:
  "47 \<notin> set (lit ''data'') \<and> readlink (fixture_env (lit ''data'') [0]) = None \<and>
   magic_from_file (fixture_env (lit ''data'') [0]) = Mime (lit ''data'') \<and>
   (\<exists>f. File_init (fixture_env (lit ''data'') [0]) (lit ''/src/blob.dat'') (lit ''/dst/blob.dat'') = Inr f \<and>
        mimetype f = Some (lit ''data'') \<and> main_type f = None \<and> sub_type f = None \<and>
        \<not> has_mimetype f \<and> is_dangerous (check_dangerous f) \<and>
        Some (lit ''File has no mimetype'') \<in> set (descriptions (check_dangerous f)))"
proof -
  have h1: "47 \<notin> set (lit ''data'')" by simp
  have h2: "readlink (fixture_env (lit ''data'') [0]) = None" by (simp add: fixture_env_def)
  have h3: "magic_from_file (fixture_env (lit ''data'') [0]) = Mime (lit ''data'')"
    by (simp add: fixture_env_def)
  from bare_mimetype_is_dangerous [OF h1 h2 h3, of "lit ''/src/blob.dat''" "lit ''/dst/blob.dat''"] h1 h2 h3
  show ?thesis by blast
qed
lemma create_metadata_file_result:
  "create_metadata_file fs f ext =
     (if exists_path fs (src_path f @ check_leading_dot ext)
      then Inr (fs, add_error f KittenGroomerError [], None)
      else (case (if \<not> exists_path fs (fst (path_split (dst_path f)))
                  then makedirs fs (fst (path_split (dst_path f))) else Inr fs) of
              Inl e \<Rightarrow> Inl e
            | Inr fs1 \<Rightarrow>
                Inr (fs1, f\<lparr>metadata_file_path := Some (dst_path f @ check_leading_dot ext)\<rparr>,
                     Some (dst_path f @ check_leading_dot ext))))"
  unfolding create_metadata_file_def Let_def case_prod_beta by (rule refl)

text \<open>
  C8, amended: \<open>create_metadata_file\<close> records a KittenGroomerError and returns
  \<open>False\<close> (here \<open>None\<close>) if and only if something exists at the source path with the
  sidecar extension appended. Otherwise, when the directory of the destination path
  exists or \<open>os.makedirs\<close> creates it, it records nothing, sets
  \<open>metadata_file_path\<close> and returns the destination path with the extension appended;
  when \<open>os.makedirs\<close> raises, that exception leaves the function and nothing is
  returned or recorded.
\<close>

theorem create_metadata_file_checks_source_path:
  "(\<exists>fs1 f1. create_metadata_file fs f ext = Inr (fs1, f1, None))
     = exists_path fs (src_path f @ check_leading_dot ext) \<and>
   (case create_metadata_file fs f ext of
      Inl e \<Rightarrow>
        \<not> exists_path fs (src_path f @ check_leading_dot ext) \<and>
        \<not> exists_path fs (fst (path_split (dst_path f))) \<and>
        makedirs fs (fst (path_split (dst_path f))) = Inl e
    | Inr (fs1, f1, r) \<Rightarrow>
        (if exists_path fs (src_path f @ check_leading_dot ext)
         then r = None \<and> fs1 = fs \<and> f1 = add_error f KittenGroomerError []
         else r = Some (dst_path f @ check_leading_dot ext) \<and>
              f1 = f\<lparr>metadata_file_path := Some (dst_path f @ check_leading_dot ext)\<rparr> \<and>
              (if exists_path fs (fst (path_split (dst_path f))) then fs1 = fs
               else makedirs fs (fst (path_split (dst_path f))) = Inr fs1)))"
proof -
  define dir where "dir = fst (path_split (dst_path f))"
  define p where "p = dst_path f @ check_leading_dot ext"
  have u: "create_metadata_file fs f ext =
     (if exists_path fs (src_path f @ check_leading_dot ext)
      then Inr (fs, add_error f KittenGroomerError [], None)
      else (case (if \<not> exists_path fs dir then makedirs fs dir else Inr fs) of
              Inl e \<Rightarrow> Inl e
            | Inr fs1 \<Rightarrow> Inr (fs1, f\<lparr>metadata_file_path := Some p\<rparr>, Some p)))"
    unfolding dir_def p_def by (rule create_metadata_file_result)
  show ?thesis
  proof (cases "exists_path fs (src_path f @ check_leading_dot ext)")
    case True
    then show ?thesis by (simp add: u)
  next
    case False
    show ?thesis
    proof (cases "exists_path fs dir")
      case True
      with False show ?thesis
        by (simp add: u dir_def [symmetric] p_def [symmetric])
    next
      case nd: False
      show ?thesis
      proof (cases "makedirs fs dir")
        case (Inl e)
        with False nd show ?thesis
          by (simp add: u dir_def [symmetric] p_def [symmetric])
      next
        case (Inr fs1)
        with False nd show ?thesis
          by (simp add: u dir_def [symmetric] p_def [symmetric])
      qed
    qed
  qed
qed

subsection \<open>Facts about a freshly constructed file and about check\<close>

lemma add_error_frame [simp]:
  "filename (add_error f e i) = filename f"
  "src_path (add_error f e i) = src_path f"
  "dst_path (add_error f e i) = dst_path f"
  "mimetype (add_error f e i) = mimetype f"
  "main_type (add_error f e i) = main_type f"
  "sub_type (add_error f e i) = sub_type f"
  "extension (add_error f e i) = extension f"
  "should_copy (add_error f e i) = should_copy f"
  "is_recursive (add_error f e i) = is_recursive f"
  "tempdir_path (add_error f e i) = tempdir_path f"
  "safety_category (add_error f e i) = safety_category f"
  "descriptions (add_error f e i) = descriptions f"
  "p_filename (file_props (add_error f e i)) = p_filename (file_props f)"
  "p_extension (file_props (add_error f e i)) = p_extension (file_props f)"
  by (simp_all add: add_error_def safety_category_def descriptions_def)

definition fresh_file :: "fenv \<Rightarrow> pystr \<Rightarrow> pystr \<Rightarrow> file_rec \<Rightarrow> bool" where
  "fresh_file env src dst f =
     (src_path f = src \<and> dst_path f = dst \<and> filename f = basename src \<and>
      p_filename (file_props f) = basename src \<and>
      extension f = determine_extension env src \<and>
      p_extension (file_props f) = determine_extension env src \<and>
      safety_category f = None \<and> should_copy f \<and> \<not> is_recursive f \<and>
      descriptions f = [] \<and> metadata_file_path f = None)"

lemma fresh_file_steps [simp]:
  "fresh_file env src dst f \<Longrightarrow> fresh_file env src dst (set_property f (Set_symlink t))"
  "fresh_file env src dst f \<Longrightarrow> fresh_file env src dst (set_property f (Set_maintype a))"
  "fresh_file env src dst f \<Longrightarrow> fresh_file env src dst (set_property f (Set_subtype a))"
  "fresh_file env src dst f \<Longrightarrow> fresh_file env src dst (add_error f e i)"
  "fresh_file env src dst f \<Longrightarrow> fresh_file env src dst (f\<lparr>mimetype := m\<rparr>)"
  "fresh_file env src dst f \<Longrightarrow> fresh_file env src dst (f\<lparr>main_type := mn, sub_type := sb\<rparr>)"
  by (simp_all add: fresh_file_def set_property_def add_error_def safety_category_def descriptions_def)

lemma FileBase_init_fresh:
  assumes "FileBase_init env src dst = Inr f"
  shows "fresh_file env src dst f \<and> tempdir_path f = [] \<and>
         (has_mimetype f \<longrightarrow> mimetype f \<noteq> None) \<and>
         (\<forall>m. readlink env = None \<longrightarrow> magic_from_file env = Mime m \<longrightarrow> mimetype f = Some m) \<and>
         (\<forall>m. mimetype f = Some m \<longrightarrow> m \<noteq> [] \<longrightarrow>
              split_subtypes m = Inr (main_type f, sub_type f))"
proof -
  define f1 where "f1 = set_property
     \<lparr>src_path = src, dst_path = dst, filename = basename src,
      file_props = \<lparr>p_filepath = src, p_filename = basename src,
                 p_file_size = (case getsize env of None \<Rightarrow> 0 | Some n \<Rightarrow> n),
                 p_maintype = None, p_subtype = None, p_extension = None,
                 p_safety_category = None, p_symlink = None, p_copied = False,
                 p_description_string = [], p_errors = [], p_user_defined = []\<rparr>,
      extension = determine_extension env src, mimetype = None, should_copy = True,
      main_type = None, sub_type = None, is_recursive = False,
      tempdir_path = [], metadata_file_path = None\<rparr> (Set_extension (determine_extension env src))"
  have f1: "fresh_file env src dst f1 \<and> tempdir_path f1 = []"
    by (simp add: f1_def fresh_file_def set_property_def safety_category_def descriptions_def)
  define f2 where "f2 = (case readlink env of
                  Some target \<Rightarrow>
                    (set_property f1 (Set_symlink target))\<lparr>mimetype := Some (lit ''inode/symlink'')\<rparr>
                | None \<Rightarrow>
                    (case magic_from_file env of
                       Mime mt \<Rightarrow> f1\<lparr>mimetype := Some mt\<rparr>
                     | MagicUnicodeEncodeError \<Rightarrow> add_error f1 UnicodeEncodeError []))"
  have f2: "fresh_file env src dst f2 \<and> tempdir_path f2 = []"
    using f1 by (simp add: f2_def split: option.split magic_result.split)
  have f1n: "main_type f1 = None \<and> sub_type f1 = None"
    by (simp add: f1_def)
  have f2n: "main_type f2 = None \<and> sub_type f2 = None"
    using f1n by (simp add: f2_def split: option.split magic_result.split)
  have f2m: "\<forall>m. readlink env = None \<longrightarrow> magic_from_file env = Mime m \<longrightarrow> mimetype f2 = Some m"
    by (simp add: f2_def)
  have eq: "FileBase_init env src dst =
     (if truthy (mimetype f2)
         then (case split_subtypes (the (mimetype f2)) of
                 Inl e \<Rightarrow> Inl e
               | Inr (mn, sb) \<Rightarrow>
                   (let f3 = f2\<lparr>main_type := mn, sub_type := sb\<rparr>;
                        f4 = (if truthy mn then set_property f3 (Set_maintype (the mn)) else f3);
                        f5 = (if truthy sb then set_property f4 (Set_subtype (the sb)) else f4)
                    in Inr f5))
         else Inr f2)"
    unfolding FileBase_init_def Let_def f2_def f1_def ..
  show ?thesis
  proof (cases "truthy (mimetype f2)")
    case False
    with eq assms have "f = f2" by simp
    with f2 f2n f2m False show ?thesis
      by (auto simp: has_mimetype_def truthy_def)
  next
    case True
    with eq assms obtain mn sb where ms: "split_subtypes (the (mimetype f2)) = Inr (mn, sb)" and
      "f = (let f3 = f2\<lparr>main_type := mn, sub_type := sb\<rparr>;
                        f4 = (if truthy mn then set_property f3 (Set_maintype (the mn)) else f3)
            in (if truthy sb then set_property f4 (Set_subtype (the sb)) else f4))"
      by (auto simp: Let_def split: sum.splits prod.splits)
    then have ff: "fresh_file env src dst f" "tempdir_path f = []" "mimetype f = mimetype f2"
        "main_type f = mn" "sub_type f = sb"
      using f2 by (simp_all add: Let_def)
    with True ms f2m show ?thesis
      by (auto simp: truthy_def split: option.splits)
  qed
qed

lemma File_init_fields:
  assumes "File_init env src dst = Inr f"
  shows "src_path f = src" and "dst_path f = dst" and "filename f = basename src"
    and "p_filename (file_props f) = basename src"
    and "extension f = determine_extension env src"
    and "p_extension (file_props f) = determine_extension env src"
    and "safety_category f = None" and "should_copy f" and "\<not> is_recursive f"
    and "tempdir_path f = dst @ lit ''_temp''" and "descriptions f = []"
    and "has_mimetype f \<Longrightarrow> mimetype f \<noteq> None"
    and "readlink env = None \<Longrightarrow> magic_from_file env = Mime m \<Longrightarrow> mimetype f = Some m"
    and "mimetype f = Some m' \<Longrightarrow> m' \<noteq> [] \<Longrightarrow> split_subtypes m' = Inr (main_type f, sub_type f)"
proof -
  from assms obtain f0 where f0: "FileBase_init env src dst = Inr f0"
    and f: "f = f0\<lparr>is_recursive := False, tempdir_path := dst_path f0 @ lit ''_temp''\<rparr>"
    by (auto simp: File_init_def split: sum.splits)
  note b = FileBase_init_fresh [OF f0]
  from b have fr: "fresh_file env src dst f0" by simp
  show "src_path f = src" "dst_path f = dst" "filename f = basename src"
    "p_filename (file_props f) = basename src" "extension f = determine_extension env src"
    "p_extension (file_props f) = determine_extension env src" "safety_category f = None"
    "should_copy f" "\<not> is_recursive f" "tempdir_path f = dst @ lit ''_temp''" "descriptions f = []"
    using fr by (simp_all add: f fresh_file_def safety_category_def descriptions_def)
  show "has_mimetype f \<Longrightarrow> mimetype f \<noteq> None"
    using b by (simp add: f has_mimetype_def)
  show "readlink env = None \<Longrightarrow> magic_from_file env = Mime m \<Longrightarrow> mimetype f = Some m"
    using b by (simp add: f)
  show "mimetype f = Some m' \<Longrightarrow> m' \<noteq> [] \<Longrightarrow> split_subtypes m' = Inr (main_type f, sub_type f)"
    using b by (simp add: f)
qed


lemma has_mimetype_check_dangerous [simp]: "has_mimetype (check_dangerous f) = has_mimetype f"
  by (simp add: has_mimetype_def)

lemma is_dangerous_set_description [simp]:
  "is_dangerous (set_property f (Set_description_string d)) = is_dangerous f"
  by (simp add: is_dangerous_def set_property_def)

lemma check_extension_frame [simp]:
  "filename (check_extension mt f) = filename f"
  "src_path (check_extension mt f) = src_path f"
  "mimetype (check_extension mt f) = mimetype f"
  "main_type (check_extension mt f) = main_type f"
  "sub_type (check_extension mt f) = sub_type f"
  "extension (check_extension mt f) = extension f"
  "p_filename (file_props (check_extension mt f)) = p_filename (file_props f)"
  "has_mimetype (check_extension mt f) = has_mimetype f"
  by (simp_all add: check_extension_def Let_def)

lemma check_extension_dangerous:
  "is_dangerous f \<Longrightarrow> is_dangerous (check_extension mt f) \<and>
     dst_path (check_extension mt f) = dst_path f"
  by (simp add: check_extension_def Let_def make_dangerous_again)

lemma descriptions_check_extension:
  "set (descriptions f) \<subseteq> set (descriptions (check_extension mt f))"
  by (auto simp: check_extension_def Let_def descriptions_make_dangerous)

lemma check_mimetype_dangerous:
  assumes "is_dangerous f" and "mimetype f \<noteq> None"
  shows "\<exists>f'. check_mimetype mt f = Inr f' \<and> is_dangerous f' \<and> dst_path f' = dst_path f \<and>
           filename f' = filename f \<and> src_path f' = src_path f \<and>
           p_filename (file_props f') = p_filename (file_props f) \<and>
           set (descriptions f) \<subseteq> set (descriptions f')"
  using assms
  by (auto simp: check_mimetype_def Let_def make_dangerous_again descriptions_make_dangerous
      split: option.splits)

lemma check_filename_rlo:
  assumes "right_to_left_override \<in> set (filename f)"
  shows "\<exists>f'. check_filename f = Inr f' \<and> is_dangerous f' \<and>
           right_to_left_override \<notin> set (dst_path f') \<and>
           filename f' = filename f \<and> src_path f' = src_path f \<and>
           p_filename (file_props f') = p_filename (file_props f) \<and>
           mimetype f' = mimetype f \<and> has_mimetype f' = has_mimetype f \<and>
           Some (lit ''Filename contains dangerous character'') \<in> set (descriptions f')"
proof -
  from assms have ne: "filename f \<noteq> []" by auto
  let ?f1 = "make_dangerous f (Some (lit ''Filename contains dangerous character''))"
  let ?f2 = "?f1\<lparr>dst_path := replace_char right_to_left_override (dst_path ?f1)\<rparr>"
  have "check_filename f = Inr ?f2"
    using assms ne by (simp add: check_filename_def Let_def)
  moreover have "is_dangerous ?f2"
    using is_dangerous_make_dangerous [of f] by (simp add: is_dangerous_def)
  moreover have "right_to_left_override \<notin> set (dst_path ?f2)"
    by (simp add: replace_char_def)
  moreover have "Some (lit ''Filename contains dangerous character'') \<in> set (descriptions ?f2)"
    using descriptions_make_dangerous [of f] by (simp add: descriptions_def)
  moreover have "has_mimetype ?f2 = has_mimetype f"
    by (simp add: has_mimetype_def)
  ultimately show ?thesis by simp
qed

lemma check_unfold:
  assumes "check_filename (check_dangerous f) = Inr f2"
    and "(if has_mimetype f3 then check_mimetype mt f3 else Inr f3) = Inr f4"
    and "f3 = (if has_extension f2 then check_extension mt f2 else f2)"
  shows "check mt env fs f =
     (if \<not> is_dangerous f4
      then call_method
             (case (case main_type f4 of None \<Rightarrow> None
                    | Some t \<Rightarrow> map_of mime_processing_options t) of
                None \<Rightarrow> M_unknown | Some m \<Rightarrow> m) env fs f4
      else Inr (fs, f4))"
  by (simp only: check_def Let_def assms(1) sum.case assms(3) [symmetric] assms(2))

lemma check_rlo_filename:
  assumes init: "File_init env src dst = Inr f"
    and rlo: "right_to_left_override \<in> set (filename f)"
  shows "\<exists>f'. check mt env fs f = Inr (fs, f') \<and> is_dangerous f' \<and>
           right_to_left_override \<notin> set (dst_path f') \<and>
           filename f' = filename f \<and> p_filename (file_props f') = filename f \<and>
           src_path f' = src_path f \<and>
           right_to_left_override \<in> set (p_filename (file_props f')) \<and>
           Some (lit ''Filename contains dangerous character'') \<in> set (descriptions f')"
proof -
  have pf: "p_filename (file_props f) = filename f"
    using File_init_fields(3,4) [OF init] by simp
  have mt: "has_mimetype f \<Longrightarrow> mimetype f \<noteq> None"
    using File_init_fields(12) [OF init] .
  from rlo have "right_to_left_override \<in> set (filename (check_dangerous f))" by simp
  from check_filename_rlo [OF this] obtain f2 where f2:
    "check_filename (check_dangerous f) = Inr f2" "is_dangerous f2"
    "right_to_left_override \<notin> set (dst_path f2)" "filename f2 = filename f"
    "src_path f2 = src_path f" "p_filename (file_props f2) = filename f"
    "mimetype f2 = mimetype f" "has_mimetype f2 = has_mimetype f"
    "Some (lit ''Filename contains dangerous character'') \<in> set (descriptions f2)"
    using pf by auto
  define f3 where "f3 = (if has_extension f2 then check_extension mt f2 else f2)"
  have f3: "is_dangerous f3" "dst_path f3 = dst_path f2" "filename f3 = filename f"
    "src_path f3 = src_path f" "p_filename (file_props f3) = filename f"
    "mimetype f3 = mimetype f" "has_mimetype f3 = has_mimetype f"
    "Some (lit ''Filename contains dangerous character'') \<in> set (descriptions f3)"
    using f2 check_extension_dangerous [of f2 mt] descriptions_check_extension [of f2 mt]
    by (auto simp: f3_def)
  have "\<exists>f4. (if has_mimetype f3 then check_mimetype mt f3 else Inr f3) = Inr f4 \<and>
      is_dangerous f4 \<and> dst_path f4 = dst_path f2 \<and> filename f4 = filename f \<and>
      src_path f4 = src_path f \<and> p_filename (file_props f4) = filename f \<and>
      Some (lit ''Filename contains dangerous character'') \<in> set (descriptions f4)"
  proof (cases "has_mimetype f3")
    case True
    then have "mimetype f3 \<noteq> None" using f3 mt by simp
    from check_mimetype_dangerous [OF f3(1) this, of mt] f3 True show ?thesis by auto
  next
    case False
    with f3 show ?thesis by simp
  qed
  then obtain f4 where f4:
    "(if has_mimetype f3 then check_mimetype mt f3 else Inr f3) = Inr f4"
    "is_dangerous f4" "dst_path f4 = dst_path f2" "filename f4 = filename f"
    "src_path f4 = src_path f" "p_filename (file_props f4) = filename f"
    "Some (lit ''Filename contains dangerous character'') \<in> set (descriptions f4)"
    by blast
  have "check mt env fs f = Inr (fs, f4)"
    using check_unfold [OF f2(1) f4(1) f3_def] f4(2) by simp
  with f4 f2(3) rlo show ?thesis by simp
qed

text \<open>
  C6: when the filename contains the right-to-left override U+202E, \<open>check\<close> returns
  normally with the file marked dangerous (reason \<open>Filename contains dangerous
  character\<close>), the destination path has no U+202E left, and the filename kept for the
  log (the attribute and the property \<open>filename\<close>) is unchanged and still has it.
\<close>

theorem rlo_filename_is_dangerous:
  assumes init: "File_init env src dst = Inr f"
    and rlo: "right_to_left_override \<in> set (filename f)"
  shows "\<exists>f'. check mt env fs f = Inr (fs, f') \<and> is_dangerous f' \<and>
           right_to_left_override \<notin> set (dst_path f') \<and>
           filename f' = filename f \<and> p_filename (file_props f') = filename f \<and>
           src_path f' = src_path f \<and>
           right_to_left_override \<in> set (p_filename (file_props f')) \<and>
           Some (lit ''Filename contains dangerous character'') \<in> set (descriptions f')"
  using init rlo by (rule check_rlo_filename)

subsection \<open>Plain text files\<close>

lemma path_split_empty: "path_split [] = ([], [])"
  by (simp add: path_split_def rfind_def)

lemma isdir_not_empty: "isdir fs p \<Longrightarrow> p \<noteq> []"
  by (auto simp: isdir_def stat_def)

lemma stat_update_other: "q \<noteq> p \<Longrightarrow> stat (fs(p \<mapsto> v)) q = stat fs q"
  by (simp add: stat_def)

lemma stat_update_same: "p \<noteq> [] \<Longrightarrow> \<not> is_root p \<Longrightarrow> stat (fs(p \<mapsto> v)) p = Some v"
  by (simp add: stat_def)

lemma write_file_in_directory:
  assumes dir: "isdir fs (fst (path_split p))" and free: "\<not> isdir fs p"
  shows "write_file fs p bytes = Inr (fs(p \<mapsto> FileObj bytes))"
    and "stat (fs(p \<mapsto> FileObj bytes)) p = Some (FileObj bytes)"
proof -
  from isdir_not_empty [OF dir] have ne: "p \<noteq> []"
    by (auto simp: path_split_empty)
  from dir have pe: "parent_error fs p = None"
    by (simp add: parent_error_def Let_def isdir_def isdir_not_empty [OF dir])
  from ne free pe show "write_file fs p bytes = Inr (fs(p \<mapsto> FileObj bytes))"
    by (simp add: write_file_def)
  from ne free have "\<not> is_root p"
    by (auto simp: isdir_def stat_def)
  with ne show "stat (fs(p \<mapsto> FileObj bytes)) p = Some (FileObj bytes)"
    by (rule stat_update_same)
qed

lemma safe_copy_regular:
  assumes src: "stat fs (src_path f) = Some (FileObj bytes)"
    and dir: "isdir fs (fst (path_split (dst_path f)))"
    and free: "\<not> isdir fs (dst_path f)"
  shows "\<exists>fs' f'. safe_copy fs f = (fs', f') \<and>
           (f' = f \<or> f' = add_error f SameFileError []) \<and>
           stat fs' (dst_path f) = Some (FileObj bytes) \<and>
           stat fs' (src_path f) = Some (FileObj bytes) \<and>
           (\<forall>q. q \<noteq> dst_path f \<longrightarrow> stat fs' q = stat fs q)"
proof -
  from dir have ex: "exists_path fs (fst (path_split (dst_path f)))"
    by (simp add: exists_path_def isdir_def)
  have u: "safe_copy fs f =
      (case shutil_copy fs (src_path f) (dst_path f) of
         Inl e \<Rightarrow> (fs, add_error f e []) | Inr fs2 \<Rightarrow> (fs2, f))"
    unfolding safe_copy_def Let_def case_prod_beta using ex by simp
  show ?thesis
  proof (cases "src_path f = dst_path f")
    case True
    with src have "shutil_copy fs (src_path f) (dst_path f) = Inl SameFileError"
      using free by (simp add: shutil_copy_def exists_path_def)
    with u have "safe_copy fs f = (fs, add_error f SameFileError [])" by simp
    with src True show ?thesis by simp
  next
    case False
    with src free have "shutil_copy fs (src_path f) (dst_path f) = write_file fs (dst_path f) bytes"
      by (simp add: shutil_copy_def)
    with write_file_in_directory(1) [OF dir free] u
    have "safe_copy fs f = (fs(dst_path f \<mapsto> FileObj bytes), f)" by simp
    moreover have "stat (fs(dst_path f \<mapsto> FileObj bytes)) (src_path f) = Some (FileObj bytes)"
      using False src by (simp add: stat_update_other)
    ultimately show ?thesis
      using write_file_in_directory(2) [OF dir free] by (simp add: stat_update_other)
  qed
qed

lemma add_description_frame [simp]:
  "filename (add_description f d) = filename f"
  "src_path (add_description f d) = src_path f"
  "dst_path (add_description f d) = dst_path f"
  "mimetype (add_description f d) = mimetype f"
  "main_type (add_description f d) = main_type f"
  "sub_type (add_description f d) = sub_type f"
  "extension (add_description f d) = extension f"
  "should_copy (add_description f d) = should_copy f"
  "is_recursive (add_description f d) = is_recursive f"
  "tempdir_path (add_description f d) = tempdir_path f"
  "safety_category (add_description f d) = safety_category f"
  "p_extension (file_props (add_description f d)) = p_extension (file_props f)"
  "p_filename (file_props (add_description f d)) = p_filename (file_props f)"
  by (simp_all add: add_description_def set_property_def safety_category_def)

lemma descriptions_add_description:
  "descriptions (add_description f d) =
     (if Some d \<in> set (descriptions f) then descriptions f else descriptions f @ [Some d])"
  by (simp add: add_description_def set_property_def descriptions_def)

lemma force_ext_frame [simp]:
  "filename (force_ext f e) = filename f"
  "src_path (force_ext f e) = src_path f"
  "extension (force_ext f e) = extension f"
  "should_copy (force_ext f e) = should_copy f"
  "is_recursive (force_ext f e) = is_recursive f"
  "tempdir_path (force_ext f e) = tempdir_path f"
  "safety_category (force_ext f e) = safety_category f"
  "descriptions (force_ext f e) = descriptions f"
  "p_extension (file_props (force_ext f e)) = Some (check_leading_dot e)"
  by (simp_all add: force_ext_def Let_def set_property_def safety_category_def descriptions_def)

lemma dst_path_force_ext:
  "dst_path (force_ext f e) =
     (if endswith (dst_path f) (check_leading_dot e) then dst_path f
      else dst_path f @ check_leading_dot e)"
  by (simp add: force_ext_def Let_def)

lemma check_leading_dot_txt: "check_leading_dot (lit ''.txt'') = lit ''.txt''"
  by (simp add: check_leading_dot_def startswith_def)

lemma set_copied_frame [simp]:
  "safety_category (set_property f (Set_copied b)) = safety_category f"
  "descriptions (set_property f (Set_copied b)) = descriptions f"
  "p_extension (file_props (set_property f (Set_copied b))) = p_extension (file_props f)"
  "p_copied (file_props (set_property f (Set_copied b))) = b"
  by (simp_all add: set_property_def safety_category_def descriptions_def)

lemma txt_not_malicious: "lit ''.txt'' \<notin> set malicious_exts"
  by (simp add: malicious_exts_def)

lemma text_handler_plain:
  assumes "sub_type f = Some (lit ''plain'')"
  shows "text_handler env f = Inr (force_ext (add_description f (lit ''Plain text file'')) (lit ''.txt''))"
proof -
  have a: "\<not> list_ex (\<lambda>mt. py_in mt (lit ''plain'')) mimes_rtf"
    by (simp add: mimes_rtf_def startswith_def)
  have b: "\<not> list_ex (\<lambda>mt. py_in mt (lit ''plain'')) mimes_ooxml"
    by (simp add: mimes_ooxml_def startswith_def)
  from a b assms show ?thesis by (simp add: text_handler_def)
qed

lemma check_plain_text:
  assumes init: "File_init env src dst = Inr f"
    and link: "readlink env = None" and magic: "magic_from_file env = Mime (lit ''text/plain'')"
    and ext: "extension f = Some (lit ''.txt'')"
    and ne: "filename f \<noteq> []"
    and rlo: "right_to_left_override \<notin> set (filename f)"
    and guess: "guess_type mt src = Some (lit ''text/plain'')"
    and exts: "lit ''.txt'' \<in> set (guess_all_extensions mt (lit ''text/plain''))"
  shows "check mt env fs f =
     Inr (fs, force_ext (add_description f (lit ''Plain text file'')) (lit ''.txt''))"
proof -
  note fl = File_init_fields [OF init]
  have mime: "mimetype f = Some (lit ''text/plain'')" using fl(13) [OF link magic] .
  have "split_subtypes (lit ''text/plain'') = Inr (main_type f, sub_type f)"
    by (rule fl(14) [OF mime]) simp
  then have ms: "main_type f = Some (lit ''text'')" "sub_type f = Some (lit ''plain'')"
    by (simp_all add: split_subtypes_def)
  have hm: "has_mimetype f" by (simp add: has_mimetype_def truthy_def ms)
  have he: "has_extension f" by (simp add: has_extension_def ext)
  have nd: "\<not> is_dangerous f" using fl(7) by (simp add: is_dangerous_def safety_category_def)
  have cd: "check_dangerous f = f"
    using hm he txt_not_malicious by (simp add: check_dangerous_def Let_def ext)
  have cf: "check_filename (check_dangerous f) = Inr f"
    using ne rlo by (simp add: cd check_filename_def)
  have ce: "check_extension mt f = f"
    using guess mime by (simp add: check_extension_def Let_def ext fl(1) override_ext_def aliases_def)
  have cm: "check_mimetype mt f = Inr f"
    using exts by (simp add: check_mimetype_def mime aliases_def Let_def ext)
  have f4: "(if has_mimetype f then check_mimetype mt f else Inr f) = Inr f"
    using hm cm by simp
  have f3: "f = (if has_extension f then check_extension mt f else f)"
    using ce by simp
  have th: "text_handler env f =
      Inr (force_ext (add_description f (lit ''Plain text file'')) (lit ''.txt''))"
    using ms(2) by (rule text_handler_plain)
  have mp: "map_of mime_processing_options (lit ''text'') = Some M_text"
    by (simp add: mime_processing_options_def)
  show ?thesis
    unfolding check_unfold [OF cf f4 f3]
    using nd mp th by (simp add: ms call_method_def)
qed

lemma length_append_neq: "p @ (x # xs) \<noteq> p"
  by simp

lemma copy_and_log_regular:
  assumes src: "stat (filesys g) (src_path f) = Some (FileObj bytes)"
    and dir: "isdir (filesys g) (fst (path_split (dst_path f)))"
    and free: "\<not> isdir (filesys g) (dst_path f)"
    and temp: "\<not> exists_path (filesys g) (tempdir_path f)"
    and td: "tempdir_path f \<noteq> dst_path f"
    and root: "py_in (logger_dst_root_path g) (src_path f) \<or> py_in (logger_src_root_path g) (src_path f)"
    and descr: "None \<notin> set (descriptions f)"
  shows "\<exists>g' f'. copy_and_log g f = Inr (g', f') \<and>
           (f' = set_property f (Set_copied True) \<or>
            f' = set_property (add_error f SameFileError []) (Set_copied True)) \<and>
           stat (filesys g') (dst_path f) = Some (FileObj bytes) \<and>
           \<not> exists_path (filesys g') (tempdir_path f) \<and>
           recursive_archive_depth g' = recursive_archive_depth g \<and>
           log_lines g' = log_lines g @ [Log_file (src_path f) (file_props f') bytes False]"
proof -
  from safe_copy_regular [OF src dir free] obtain fs' f1 where
    sc: "safe_copy (filesys g) f = (fs', f1)"
    and f1: "f1 = f \<or> f1 = add_error f SameFileError []"
    and d: "stat fs' (dst_path f) = Some (FileObj bytes)"
    and s: "stat fs' (src_path f) = Some (FileObj bytes)"
    and o: "\<forall>q. q \<noteq> dst_path f \<longrightarrow> stat fs' q = stat (filesys g) q"
    by blast
  define f2 where "f2 = set_property f1 (Set_copied True)"
  from f1 have f2: "src_path f2 = src_path f" "\<not> is_recursive f2 \<or> is_recursive f2"
    "tempdir_path f2 = tempdir_path f" "descriptions f2 = descriptions f"
    by (auto simp: f2_def)
  from o td temp have nt: "\<not> exists_path fs' (tempdir_path f)"
    by (simp add: exists_path_def)
  from src have sne: "src_path f \<noteq> []"
    by (auto simp: stat_def)
  from root sne have gp: "\<exists>b. get_path_depth (g\<lparr>filesys := fs'\<rparr>) (src_path f) = Inr b"
    by (auto simp: get_path_depth_def)
  from descr f2(4) have nn: "None \<notin> set (p_description_string (file_props f2))"
    by (simp add: descriptions_def)
  from gp nn s have af: "add_file (g\<lparr>filesys := fs'\<rparr>) (src_path f) (file_props f2) False
      = Inr (g\<lparr>filesys := fs', log_lines := log_lines g @ [Log_file (src_path f) (file_props f2) bytes False]\<rparr>)"
    by (auto simp: add_file_def)
  have wl: "write_log (g\<lparr>filesys := fs'\<rparr>) f2
      = Inr (g\<lparr>filesys := fs', log_lines := log_lines g @ [Log_file (src_path f) (file_props f2) bytes False]\<rparr>)"
    using nt af by (simp add: write_log_def f2)
  have "copy_and_log g f
      = Inr (g\<lparr>filesys := fs', log_lines := log_lines g @ [Log_file (src_path f) (file_props f2) bytes False]\<rparr>, f2)"
    by (simp add: copy_and_log_def sc f2_def [symmetric] wl)
  moreover have "f2 = set_property f (Set_copied True) \<or>
      f2 = set_property (add_error f SameFileError []) (Set_copied True)"
    using f1 by (auto simp: f2_def)
  ultimately show ?thesis using d nt by simp
qed


subsection \<open>The walk over the source tree\<close>

lemma groomer_filesys_same [simp]: "g\<lparr>filesys := filesys g\<rparr> = g"
  by simp

lemma makedirs_in_directory:
  assumes dir: "isdir fs (fst (path_split p))" and tail: "snd (path_split p) \<noteq> []"
    and new: "\<not> exists_path fs p"
  shows "makedirs fs p = Inr (fs(p \<mapsto> DirObj))"
proof -
  from tail have ms: "makedirs_split p = path_split p"
    by (cases "path_split p") (simp add: makedirs_split_def)
  from dir have ex: "exists_path fs (fst (path_split p))"
    by (simp add: exists_path_def isdir_def)
  from isdir_not_empty [OF dir] have ne: "p \<noteq> []"
    by (auto simp: path_split_empty)
  from dir have pe: "parent_error fs p = None"
    by (simp add: parent_error_def Let_def isdir_def isdir_not_empty [OF dir])
  have "makedirs fs p = mkdir fs p"
    by (subst makedirs.simps) (simp add: ms ex)
  with ne new pe show ?thesis by (simp add: mkdir_def)
qed


definition grows :: "groomer \<Rightarrow> groomer \<Rightarrow> bool" where
  "grows g g' =
     (recursive_archive_depth g' = recursive_archive_depth g \<and>
      max_recursive_depth g' = max_recursive_depth g \<and>
      logger_src_root_path g' = logger_src_root_path g \<and>
      logger_dst_root_path g' = logger_dst_root_path g \<and>
      (\<exists>ls. log_lines g' = log_lines g @ ls))"

lemma grows_refl [simp]: "grows g g"
  by (simp add: grows_def)

lemma grows_trans: "grows a b \<Longrightarrow> grows b c \<Longrightarrow> grows a c"
  by (auto simp: grows_def)

lemma grows_filesys [simp]: "grows g (g\<lparr>filesys := fs\<rparr>)"
  by (simp add: grows_def)

lemma grows_add_file: "add_file g p ps b = Inr g' \<Longrightarrow> grows g g'"
  by (auto simp: grows_def add_file_def split: sum.splits if_splits option.splits fsobj.splits)

lemma grows_add_dir: "add_dir g p = Inr g' \<Longrightarrow> grows g g'"
  by (auto simp: grows_def add_dir_def split: sum.splits)

lemma grows_write_log: "write_log g f = Inr g' \<Longrightarrow> grows g g'"
  by (auto simp: write_log_def dest: grows_add_file split: if_splits)

lemma grows_copy_and_log: "copy_and_log g f = Inr (g', f') \<Longrightarrow> grows g g'"
  by (auto simp: copy_and_log_def split: prod.splits sum.splits
      dest!: grows_write_log intro: grows_trans [OF grows_filesys])

lemma grows_cleanup: "cleanup g p = Inr g' \<Longrightarrow> grows g g'"
  by (auto simp: cleanup_def split: sum.splits)

lemma grows_unpack: "unpack g f oc ex = Inr g' \<Longrightarrow> grows g g'"
  by (auto simp: unpack_def split: sum.splits
      dest!: grows_write_log intro: grows_trans [OF grows_filesys])

lemma process_grows:
  shows "process_dir mt g s d ns = Inr g' \<Longrightarrow> grows g g'"
    and "process_queue mt g d q = Inr g' \<Longrightarrow> grows g g'"
    and "process_file mt g f env oc ex = Inr (g', f') \<Longrightarrow> grows g g'"
    and "process_archive mt g f oc ex = Inr (g', f') \<Longrightarrow> grows g g'"
proof (induction mt g s d ns and mt g d q and mt g f env oc ex and mt g f oc ex
    arbitrary: g' and g' and g' f' and g' f'
    rule: process_dir_process_queue_process_file_process_archive.induct)
  case (1 mt g src_dir dst_dir nodes)
  then show ?case by (simp add: process_dir.simps)
next
  case (2 mt g dst_dir)
  then show ?case by (simp add: process_queue.simps)
next
  case (3 mt g dst_dir srcpath queue)
  note p = "3.prems" [unfolded process_queue.simps]
  obtain g1 where ad: "add_dir g srcpath = Inr g1"
    using p by (cases "add_dir g srcpath") simp_all
  from p have rest: "process_queue mt g1 dst_dir queue = Inr g'"
    unfolding ad sum.case .
  from "3.IH" [OF ad rest] have "grows g1 g'" .
  with grows_add_dir [OF ad] show ?case by (rule grows_trans)
next
  case (4 mt g dst_dir srcpath env oc extracted queue)
  note p = "4.prems" [unfolded process_queue.simps]
  obtain b where init: "File_init env srcpath (path_join dst_dir (basename srcpath)) = Inr b"
    using p by (cases "File_init env srcpath (path_join dst_dir (basename srcpath))") simp_all
  note p2 = p [unfolded init sum.case]
  obtain g1 f1 where pf: "process_file mt g b env oc extracted = Inr (g1, f1)"
    using p2 by (cases "process_file mt g b env oc extracted") auto
  from p2 have rest: "process_queue mt g1 dst_dir queue = Inr g'"
    unfolding pf sum.case prod.case .
  from "4.IH"(1) [OF init pf] have a: "grows g g1" .
  from "4.IH"(2) [OF init pf refl rest] have "grows g1 g'" .
  with a show ?case by (rule grows_trans)
next
  case (5 mt g f env oc extracted)
  note p = "5.prems" [unfolded process_file.simps]
  obtain fs1 f1 where chk: "check mt env (filesys g) f = Inr (fs1, f1)"
    using p by (cases "check mt env (filesys g) f") auto
  note p2 = p [unfolded chk sum.case prod.case]
  define cl where "cl = (if should_copy f1 then copy_and_log (g\<lparr>filesys := fs1\<rparr>) f1
                 else Inr (g\<lparr>filesys := fs1\<rparr>, f1))"
  obtain g3 f3 where c3: "cl = Inr (g3, f3)"
    using p2 unfolding cl_def [symmetric] by (cases cl) auto
  note p3 = p2 [unfolded cl_def [symmetric] c3 sum.case prod.case]
  have g3: "grows g g3"
    using c3 unfolding cl_def
    by (auto split: if_splits dest!: grows_copy_and_log intro: grows_trans [OF grows_filesys])
  define pa where "pa = (if is_recursive f3 then process_archive mt g3 f3 oc extracted
                      else Inr (g3, f3))"
  obtain g4 f4 where c4: "pa = Inr (g4, f4)"
    using p3 unfolding pa_def [symmetric] by (cases pa) auto
  note p4 = p3 [unfolded pa_def [symmetric] c4 sum.case prod.case]
  obtain g5 where c5: "cleanup g4 (tempdir_path f4) = Inr g5" and g': "g' = g5"
    using p4 by (cases "cleanup g4 (tempdir_path f4)") auto
  have g4: "grows g3 g4"
  proof (cases "is_recursive f3")
    case True
    with c4 have "process_archive mt g3 f3 oc extracted = Inr (g4, f4)" by (simp add: pa_def)
    from "5.IH" [OF chk refl c3 [unfolded cl_def] refl True this] show ?thesis .
  next
    case False
    with c4 show ?thesis by (simp add: pa_def)
  qed
  from grows_trans [OF grows_trans [OF g3 g4] grows_cleanup [OF c5]] show ?case
    unfolding g' .
next
  case (6 mt g f oc extracted)
  show ?case
  proof (cases "max_recursive_depth g \<le> recursive_archive_depth g + 1")
    case True
    with "6.prems" [unfolded process_archive.simps] show ?thesis by (auto simp: grows_def)
  next
    case False
    note p = "6.prems" [unfolded process_archive.simps]
    define g0 where "g0 = g\<lparr>recursive_archive_depth := recursive_archive_depth g + 1\<rparr>"
    from False p have p1: "(case unpack g0 f oc extracted of
           Inl e \<Rightarrow> Inl e
         | Inr g1 \<Rightarrow>
             (case process_dir mt g1 (tempdir_path f) (dst_path f) extracted of
                Inl e \<Rightarrow> Inl e
              | Inr g2 \<Rightarrow>
                  (case cleanup g2 (tempdir_path f) of
                     Inl e \<Rightarrow> Inl e
                   | Inr g3 \<Rightarrow>
                       Inr (g3\<lparr>recursive_archive_depth := recursive_archive_depth g3 - 1\<rparr>, f))))
        = Inr (g', f')" by (simp add: g0_def)
    obtain g1 where up: "unpack g0 f oc extracted = Inr g1"
      using p1 by (cases "unpack g0 f oc extracted") auto
    note p2 = p1 [unfolded up sum.case]
    obtain g2 where pd: "process_dir mt g1 (tempdir_path f) (dst_path f) extracted = Inr g2"
      using p2 by (cases "process_dir mt g1 (tempdir_path f) (dst_path f) extracted") auto
    note p3 = p2 [unfolded pd sum.case]
    obtain g3 where cu: "cleanup g2 (tempdir_path f) = Inr g3"
      and g': "g' = g3\<lparr>recursive_archive_depth := recursive_archive_depth g3 - 1\<rparr>"
      using p3 by (cases "cleanup g2 (tempdir_path f)") auto
    from "6.IH" [OF False up [unfolded g0_def] pd] have "grows g1 g2" .
    from grows_trans [OF grows_trans [OF grows_unpack [OF up] this] grows_cleanup [OF cu]]
    have "grows g0 g3" .
    then show ?thesis
      unfolding g' by (auto simp: grows_def g0_def)
  qed
qed

lemma check_clean:
  assumes init: "File_init env src dst = Inr f"
    and link: "readlink env = None" and magic: "magic_from_file env = Mime m"
    and parts: "split_subtypes m = Inr (Some a, Some b)" "a \<noteq> []" "b \<noteq> []"
    and ext: "extension f = Some e" and mal: "e \<notin> set malicious_exts"
    and ne: "filename f \<noteq> []"
    and rlo: "right_to_left_override \<notin> set (filename f)"
    and ov: "map_of override_ext e = None" and al: "map_of aliases m = None"
    and guess: "e \<in> fst ` set (types_map mt) \<Longrightarrow> guess_type mt src = Some m"
    and exts: "guess_all_extensions mt m = [] \<or> e \<in> set (guess_all_extensions mt m)"
  shows "check mt env fs f =
     call_method (case map_of mime_processing_options a of None \<Rightarrow> M_unknown | Some h \<Rightarrow> h) env fs f"
    and "mimetype f = Some m" and "main_type f = Some a" and "sub_type f = Some b"
proof -
  note fl = File_init_fields [OF init]
  show mime: "mimetype f = Some m" using fl(13) [OF link magic] .
  from parts have mne: "m \<noteq> []" by (auto simp: split_subtypes_def)
  have "split_subtypes m = Inr (main_type f, sub_type f)"
    by (rule fl(14) [OF mime mne])
  with parts show ms: "main_type f = Some a" "sub_type f = Some b" by simp_all
  have hm: "has_mimetype f" using parts(2,3) by (simp add: has_mimetype_def truthy_def ms)
  have he: "has_extension f" by (simp add: has_extension_def ext)
  have nd: "\<not> is_dangerous f" using fl(7) by (simp add: is_dangerous_def safety_category_def)
  have cd: "check_dangerous f = f"
    using hm he mal by (simp add: check_dangerous_def Let_def ext)
  have cf: "check_filename (check_dangerous f) = Inr f"
    using ne rlo by (simp add: cd check_filename_def)
  have ce: "check_extension mt f = f"
  proof (cases "e \<in> fst ` set (types_map mt)")
    case True
    from guess [OF True] mime True show ?thesis
      by (simp add: check_extension_def Let_def ext fl(1) ov al)
  next
    case False
    then show ?thesis by (simp add: check_extension_def Let_def ext)
  qed
  have cm: "check_mimetype mt f = Inr f"
    using exts by (auto simp: check_mimetype_def mime al Let_def ext)
  have f4: "(if has_mimetype f then check_mimetype mt f else Inr f) = Inr f"
    using hm cm by simp
  have f3: "f = (if has_extension f then check_extension mt f else f)"
    using ce by simp
  show "check mt env fs f =
     call_method (case map_of mime_processing_options a of None \<Rightarrow> M_unknown | Some h \<Rightarrow> h) env fs f"
    unfolding check_unfold [OF cf f4 f3] using nd by (simp add: ms)
qed

lemma application_zip:
  assumes "sub_type f = Some (lit ''zip'')"
  shows "application env f = Inr (archive f)"
  using assms
  by (simp add: application_def app_subtype_methods_def make_method_dict_def
      mimes_office_def mimes_ooxml_def mimes_rtf_def mimes_libreoffice_def mimes_pdf_def
      mimes_xml_def mimes_ms_def mimes_compressed_def mimes_data_def startswith_def
      call_app_method_def)

lemma application_odt:
  assumes "sub_type f = Some (lit ''vnd.oasis.opendocument.text'')"
  shows "application env f = libreoffice env f"
  using assms
  by (simp add: application_def app_subtype_methods_def make_method_dict_def
      mimes_office_def mimes_ooxml_def mimes_rtf_def mimes_libreoffice_def mimes_pdf_def
      mimes_xml_def mimes_ms_def mimes_compressed_def mimes_data_def startswith_def
      call_app_method_def)

lemma process_archive_bomb:
  assumes "max_recursive_depth g \<le> recursive_archive_depth g + 1"
  shows "process_archive mt g f oc extracted =
     Inr (g, make_dangerous f (Some (lit ''Archive bomb'')))"
  using assms by (simp add: process_archive.simps)

lemma process_archive_expanded:
  assumes "recursive_archive_depth g + 1 < max_recursive_depth g"
  shows "process_archive mt g f oc extracted =
     (case unpack (g\<lparr>recursive_archive_depth := recursive_archive_depth g + 1\<rparr>) f oc extracted of
        Inl e \<Rightarrow> Inl e
      | Inr g1 \<Rightarrow>
          (case process_dir mt g1 (tempdir_path f) (dst_path f) extracted of
             Inl e \<Rightarrow> Inl e
           | Inr g2 \<Rightarrow>
               (case cleanup g2 (tempdir_path f) of
                  Inl e \<Rightarrow> Inl e
                | Inr g3 \<Rightarrow>
                    Inr (g3\<lparr>recursive_archive_depth := recursive_archive_depth g3 - 1\<rparr>, f))))"
  using assms by (simp add: process_archive.simps)

lemma process_file_not_copied:
  assumes chk: "check mt env (filesys g) f = Inr (fs1, f1)"
    and nc: "\<not> should_copy f1" and nr: "\<not> is_recursive f1"
    and nt: "\<not> exists_path fs1 (tempdir_path f1)"
  shows "process_file mt g f env oc extracted = Inr (g\<lparr>filesys := fs1\<rparr>, f1)"
  using nc nr nt by (simp add: process_file.simps chk cleanup_def safe_rmtree_def)

lemma process_file_archive:
  assumes chk: "check mt env (filesys g) f = Inr (fs1, f1)"
    and nc: "\<not> should_copy f1" and r: "is_recursive f1"
  shows "process_file mt g f env oc extracted =
     (case process_archive mt (g\<lparr>filesys := fs1\<rparr>) f1 oc extracted of
        Inl e \<Rightarrow> Inl e
      | Inr (g4, f4) \<Rightarrow>
          (case cleanup g4 (tempdir_path f4) of
             Inl e \<Rightarrow> Inl e
           | Inr g5 \<Rightarrow> Inr (g5, f4)))"
  using nc r by (simp add: process_file.simps chk)

lemma process_file_copied:
  assumes chk: "check mt env (filesys g) f = Inr (fs1, f1)"
    and c: "should_copy f1" and nr: "\<not> is_recursive f1"
    and cl: "copy_and_log (g\<lparr>filesys := fs1\<rparr>) f1 = Inr (g3, f3)"
    and r3: "\<not> is_recursive f3"
  shows "process_file mt g f env oc extracted =
     (case cleanup g3 (tempdir_path f3) of Inl e \<Rightarrow> Inl e | Inr g5 \<Rightarrow> Inr (g5, f3))"
  using c r3 by (simp add: process_file.simps chk cl)

lemma process_queue_file:
  assumes "File_init env srcpath (path_join dst_dir (basename srcpath)) = Inr f"
    and "process_file mt g f env oc extracted = Inr (g1, f1)"
  shows "process_queue mt g dst_dir ((srcpath, QFile env oc extracted) # queue) =
     process_queue mt g1 dst_dir queue"
  using assms by (simp add: process_queue.simps)

lemma process_queue_raises:
  assumes "File_init env srcpath (path_join dst_dir (basename srcpath)) = Inr f"
    and "process_file mt g f env oc extracted = Inl e"
  shows "process_queue mt g dst_dir ((srcpath, QFile env oc extracted) # queue) = Inl e"
  using assms by (simp add: process_queue.simps)

lemma archive_frame [simp]:
  "src_path (archive f) = src_path f"
  "dst_path (archive f) = dst_path f"
  "tempdir_path (archive f) = tempdir_path f"
  "\<not> should_copy (archive f)"
  "is_recursive (archive f)"
  "safety_category (archive f) = safety_category f"
  "descriptions (archive f) = descriptions (add_description f (lit ''Archive''))"
  by (simp_all add: archive_def safety_category_def descriptions_def add_description_def
      set_property_def)

lemma copy_and_log_exact:
  assumes mk: "(if \<not> exists_path (filesys g) (fst (path_split (dst_path f)))
                then makedirs (filesys g) (fst (path_split (dst_path f)))
                else Inr (filesys g)) = Inr fs1"
    and src: "stat fs1 (src_path f) = Some (FileObj bytes)"
    and dir: "isdir fs1 (fst (path_split (dst_path f)))"
    and free: "\<not> isdir fs1 (dst_path f)"
    and diff: "src_path f \<noteq> dst_path f"
    and temp: "\<not> exists_path fs1 (tempdir_path f)"
    and td: "tempdir_path f \<noteq> dst_path f"
    and root: "py_in (logger_dst_root_path g) (src_path f) \<or> py_in (logger_src_root_path g) (src_path f)"
    and descr: "None \<notin> set (descriptions f)"
  shows "copy_and_log g f =
     Inr (g\<lparr>filesys := fs1(dst_path f \<mapsto> FileObj bytes),
            log_lines := log_lines g @
              [Log_file (src_path f) (file_props (set_property f (Set_copied True))) bytes False]\<rparr>,
          set_property f (Set_copied True))"
proof -
  let ?fs2 = "fs1(dst_path f \<mapsto> FileObj bytes)"
  let ?f2 = "set_property f (Set_copied True)"
  have sh: "shutil_copy fs1 (src_path f) (dst_path f) = Inr ?fs2"
    using src free diff write_file_in_directory(1) [OF dir free, of bytes]
    by (simp add: shutil_copy_def)
  have sc: "safe_copy (filesys g) f = (?fs2, f)"
    unfolding safe_copy_def Let_def case_prod_beta mk sum.case sh by (rule refl)
  have s2: "stat ?fs2 (src_path f) = Some (FileObj bytes)"
    using diff src by (simp add: stat_update_other)
  have nt: "\<not> exists_path ?fs2 (tempdir_path f)"
    using temp td by (simp add: exists_path_def stat_update_other)
  from src have sne: "src_path f \<noteq> []"
    by (auto simp: stat_def)
  from root sne have gp: "\<exists>b. get_path_depth (g\<lparr>filesys := ?fs2\<rparr>) (src_path f) = Inr b"
    by (auto simp: get_path_depth_def)
  from descr have nn: "None \<notin> set (p_description_string (file_props ?f2))"
    by (simp add: descriptions_def set_property_def)
  from gp nn s2 have af: "add_file (g\<lparr>filesys := ?fs2\<rparr>) (src_path f) (file_props ?f2) False
      = Inr (g\<lparr>filesys := ?fs2, log_lines := log_lines g @ [Log_file (src_path f) (file_props ?f2) bytes False]\<rparr>)"
    by (auto simp: add_file_def)
  have wl: "write_log (g\<lparr>filesys := ?fs2\<rparr>) ?f2
      = Inr (g\<lparr>filesys := ?fs2, log_lines := log_lines g @ [Log_file (src_path f) (file_props ?f2) bytes False]\<rparr>)"
    using nt af by (simp add: write_log_def)
  show ?thesis
    by (simp add: copy_and_log_def sc wl)
qed

lemma unpack_exact:
  assumes ok: "oc \<noteq> SpawnFailed"
    and mk: "make_tempdir (filesys g) f = Inr fs1"
    and src: "stat (populate (tempdir_path f) extracted fs1) (src_path f) = Some (FileObj bytes)"
    and r: "is_recursive f"
    and root: "py_in (logger_dst_root_path g) (src_path f) \<or> py_in (logger_src_root_path g) (src_path f)"
    and descr: "None \<notin> set (descriptions f)"
  shows "unpack g f oc extracted =
     Inr (g\<lparr>filesys := populate (tempdir_path f) extracted fs1,
            log_lines := log_lines g @ [Log_file (src_path f) (file_props f) bytes False]\<rparr>)"
proof -
  let ?fs2 = "populate (tempdir_path f) extracted fs1"
  from ok have "\<exists>v. run_process oc = Inr v"
    by (cases oc) (simp_all add: run_process_def)
  then obtain v where rp: "run_process oc = Inr v" ..
  from src have sne: "src_path f \<noteq> []"
    by (auto simp: stat_def)
  from root sne have gp: "\<exists>b. get_path_depth (g\<lparr>filesys := ?fs2\<rparr>) (src_path f) = Inr b"
    by (auto simp: get_path_depth_def)
  from descr have nn: "None \<notin> set (p_description_string (file_props f))"
    by (simp add: descriptions_def)
  from gp nn src have af: "add_file (g\<lparr>filesys := ?fs2\<rparr>) (src_path f) (file_props f) False
      = Inr (g\<lparr>filesys := ?fs2, log_lines := log_lines g @ [Log_file (src_path f) (file_props f) bytes False]\<rparr>)"
    by (auto simp: add_file_def)
  have wl: "write_log (g\<lparr>filesys := ?fs2\<rparr>) f
      = Inr (g\<lparr>filesys := ?fs2, log_lines := log_lines g @ [Log_file (src_path f) (file_props f) bytes False]\<rparr>)"
    using r af by (simp add: write_log_def)
  show ?thesis
    by (simp add: unpack_def mk rp wl)
qed

lemma check_zip:
  assumes init: "File_init env src dst = Inr f"
    and link: "readlink env = None" and magic: "magic_from_file env = Mime (lit ''application/zip'')"
    and ext: "extension f = Some (lit ''.zip'')"
    and ne: "filename f \<noteq> []"
    and rlo: "right_to_left_override \<notin> set (filename f)"
    and guess: "guess_type mt src = Some (lit ''application/zip'')"
    and exts: "lit ''.zip'' \<in> set (guess_all_extensions mt (lit ''application/zip''))"
  shows "check mt env fs f = Inr (fs, archive f)"
proof -
  have sp: "split_subtypes (lit ''application/zip'') = Inr (Some (lit ''application''), Some (lit ''zip''))"
    by (simp add: split_subtypes_def)
  have mal: "lit ''.zip'' \<notin> set malicious_exts"
    by (simp add: malicious_exts_def)
  have ov: "map_of override_ext (lit ''.zip'') = None"
    by (simp add: override_ext_def)
  have al: "map_of aliases (lit ''application/zip'') = None"
    by (simp add: aliases_def)
  have a: "lit ''application'' \<noteq> []" and b: "lit ''zip'' \<noteq> []" by simp_all
  from exts have ex: "guess_all_extensions mt (lit ''application/zip'') = [] \<or>
      lit ''.zip'' \<in> set (guess_all_extensions mt (lit ''application/zip''))" ..
  note c = check_clean [OF init link magic sp a b ext mal ne rlo ov al guess ex]
  have mp: "map_of mime_processing_options (lit ''application'') = Some M_application"
    by (simp add: mime_processing_options_def)
  have "check mt env fs f = call_method M_application env fs f"
    using c(1) [of fs] mp by simp
  moreover have "sub_type f = Some (lit ''zip'')"
    using c(4) by simp
  ultimately show ?thesis
    by (simp add: call_method_def application_zip)
qed

lemma process_file_plain_text_exact:
  assumes init: "File_init env src dst = Inr f"
    and link: "readlink env = None" and magic: "magic_from_file env = Mime (lit ''text/plain'')"
    and ext: "extension f = Some (lit ''.txt'')"
    and ne: "filename f \<noteq> []"
    and rlo: "right_to_left_override \<notin> set (filename f)"
    and guess: "guess_type mt src = Some (lit ''text/plain'')"
    and exts: "lit ''.txt'' \<in> set (guess_all_extensions mt (lit ''text/plain''))"
    and d: "d = (if endswith dst (lit ''.txt'') then dst else dst @ lit ''.txt'')"
    and mk: "(if \<not> exists_path (filesys g) (fst (path_split d))
              then makedirs (filesys g) (fst (path_split d)) else Inr (filesys g)) = Inr fs1"
    and src_file: "stat fs1 src = Some (FileObj bytes)"
    and dst_dir: "isdir fs1 (fst (path_split d))"
    and dst_free: "\<not> isdir fs1 d"
    and diff: "src \<noteq> d"
    and no_temp: "\<not> exists_path fs1 (dst @ lit ''_temp'')"
    and root: "py_in (logger_dst_root_path g) src \<or> py_in (logger_src_root_path g) src"
    and f': "f' = set_property (force_ext (add_description f (lit ''Plain text file'')) (lit ''.txt''))
                   (Set_copied True)"
  shows "process_file mt g f env oc extracted =
     Inr (g\<lparr>filesys := fs1(d \<mapsto> FileObj bytes),
            log_lines := log_lines g @ [Log_file src (file_props f') bytes False]\<rparr>, f')"
proof -
  note fl = File_init_fields [OF init]
  define f1 where "f1 = force_ext (add_description f (lit ''Plain text file'')) (lit ''.txt'')"
  from check_plain_text [OF init link magic ext ne rlo guess exts, of "filesys g"]
  have chk: "check mt env (filesys g) f = Inr (filesys g, f1)" by (simp add: f1_def)
  have fa: "src_path f1 = src" "should_copy f1" "\<not> is_recursive f1"
    "tempdir_path f1 = dst @ lit ''_temp''"
    using fl(1,8,9,10) by (simp_all add: f1_def)
  have fb: "dst_path f1 = d"
    unfolding f1_def dst_path_force_ext add_description_frame fl(2) d check_leading_dot_txt
    by (rule refl)
  have fd: "descriptions f1 = [Some (lit ''Plain text file'')]"
    unfolding f1_def force_ext_frame(8) descriptions_add_description fl(11) by simp
  have td: "tempdir_path f1 \<noteq> dst_path f1"
    unfolding fa fb d by simp
  have cl: "copy_and_log g f1 =
     Inr (g\<lparr>filesys := fs1(dst_path f1 \<mapsto> FileObj bytes),
            log_lines := log_lines g @
              [Log_file (src_path f1) (file_props (set_property f1 (Set_copied True))) bytes False]\<rparr>,
          set_property f1 (Set_copied True))"
  proof (rule copy_and_log_exact)
    show "(if \<not> exists_path (filesys g) (fst (path_split (dst_path f1)))
                then makedirs (filesys g) (fst (path_split (dst_path f1)))
                else Inr (filesys g)) = Inr fs1"
      unfolding fb by (rule mk)
    show "stat fs1 (src_path f1) = Some (FileObj bytes)"
      unfolding fa by (rule src_file)
    show "isdir fs1 (fst (path_split (dst_path f1)))"
      unfolding fb by (rule dst_dir)
    show "\<not> isdir fs1 (dst_path f1)"
      unfolding fb by (rule dst_free)
    show "src_path f1 \<noteq> dst_path f1"
      unfolding fa fb by (rule diff)
    show "\<not> exists_path fs1 (tempdir_path f1)"
      unfolding fa by (rule no_temp)
    show "tempdir_path f1 \<noteq> dst_path f1" by (rule td)
    show "py_in (logger_dst_root_path g) (src_path f1) \<or> py_in (logger_src_root_path g) (src_path f1)"
      unfolding fa by (rule root)
    show "None \<notin> set (descriptions f1)"
      unfolding fd by simp
  qed
  have f2: "set_property f1 (Set_copied True) = f'"
    unfolding f' f1_def by (rule refl)
  note cl2 = cl [unfolded f2 fa fb]
  have r3: "\<not> is_recursive f'" and t3: "tempdir_path f' = dst @ lit ''_temp''"
    unfolding f2 [symmetric] using fa by simp_all
  have nt: "\<not> exists_path (fs1(d \<mapsto> FileObj bytes)) (dst @ lit ''_temp'')"
    using no_temp td [unfolded fa fb] by (simp add: exists_path_def stat_update_other)
  have "process_file mt g f env oc extracted =
     (case cleanup (g\<lparr>filesys := fs1(d \<mapsto> FileObj bytes),
            log_lines := log_lines g @ [Log_file src (file_props f') bytes False]\<rparr>) (tempdir_path f') of
        Inl e \<Rightarrow> Inl e | Inr g5 \<Rightarrow> Inr (g5, f'))"
    by (rule process_file_copied [OF chk fa(2) fa(3) _ r3]) (simp add: cl2)
  then show ?thesis
    using nt by (simp add: t3 cleanup_def safe_rmtree_def)
qed

lemma process_archive_members:
  assumes d: "recursive_archive_depth g + 1 < max_recursive_depth g"
    and r: "process_archive mt g f oc extracted = Inr (g', f')"
  shows "f' = f \<and>
         (\<exists>g1 g2. unpack (g\<lparr>recursive_archive_depth := recursive_archive_depth g + 1\<rparr>) f oc extracted = Inr g1 \<and>
            process_dir mt g1 (tempdir_path f) (dst_path f) extracted = Inr g2 \<and>
            log_lines g' = log_lines g2)"
proof -
  note p = r [unfolded process_archive_expanded [OF d]]
  obtain g1 where up: "unpack (g\<lparr>recursive_archive_depth := recursive_archive_depth g + 1\<rparr>) f oc extracted = Inr g1"
    using p by (cases "unpack (g\<lparr>recursive_archive_depth := recursive_archive_depth g + 1\<rparr>) f oc extracted") auto
  note p2 = p [unfolded up sum.case]
  obtain g2 where pd: "process_dir mt g1 (tempdir_path f) (dst_path f) extracted = Inr g2"
    using p2 by (cases "process_dir mt g1 (tempdir_path f) (dst_path f) extracted") auto
  note p3 = p2 [unfolded pd sum.case]
  obtain g3 where cu: "cleanup g2 (tempdir_path f) = Inr g3"
    and g': "g' = g3\<lparr>recursive_archive_depth := recursive_archive_depth g3 - 1\<rparr>" and f': "f' = f"
    using p3 by (cases "cleanup g2 (tempdir_path f)") auto
  from cu have "log_lines g3 = log_lines g2"
    by (auto simp: cleanup_def split: sum.splits)
  with up pd g' f' show ?thesis by simp
qed

lemma unpack_ignores_exit:
  assumes "oc = Exited rc \<or> oc = TimeoutExpired"
  shows "unpack g f oc extracted = unpack g f (Exited 0) extracted"
  using assms by (cases "rc = 0") (auto simp: unpack_def run_process_def split: sum.splits)



section \<open>The claims at concrete inputs\<close>

lemma fixture_env_fields [simp]:
  "readlink (fixture_env m bytes) = None"
  "magic_from_file (fixture_env m bytes) = Mime m"
  "content (fixture_env m bytes) = bytes"
  "str_lower (fixture_env m bytes) = lower_ascii"
  by (simp_all add: fixture_env_def)

lemma File_init_returns:
  assumes "readlink env = None" and "magic_from_file env = Mime m"
    and "split_subtypes m = Inr (a, b)"
  shows "\<exists>f. File_init env src dst = Inr f"
  using assms
  by (cases "m = []") (simp_all add: File_init_def FileBase_init_def Let_def truthy_def)

lemma split_subtypes_text_plain:
  "split_subtypes (lit ''text/plain'') = Inr (Some (lit ''text''), Some (lit ''plain''))"
  by (simp add: split_subtypes_def)

lemma split_subtypes_x_foo:
  "split_subtypes (lit ''application/x-foo'') = Inr (Some (lit ''application''), Some (lit ''x-foo''))"
  by (simp add: split_subtypes_def)

text \<open>
  C2, as stated, fails: \<open>make_binary\<close> only returns early on a dangerous file, so it
  overwrites \<open>unknown\<close>. On the file \<open>/src/a.foo\<close>, \<open>make_unknown\<close> followed by
  \<open>make_binary\<close> goes from unknown to binary.
\<close>

theorem unknown_overwritten_by_binary:
  "(case File_init (fixture_env (lit ''application/x-foo'') [1]) (lit ''/src/a.foo'') (lit ''/dst/a.foo'') of
      Inl e \<Rightarrow> False
    | Inr f \<Rightarrow> is_unknown (apply_call f Make_unknown) \<and>
               is_binary (foldl apply_call f [Make_unknown, Make_binary]))"
proof -
  from File_init_returns [OF fixture_env_fields(1) fixture_env_fields(2) split_subtypes_x_foo]
  obtain f where f: "File_init (fixture_env (lit ''application/x-foo'') [1]) (lit ''/src/a.foo'') (lit ''/dst/a.foo'') = Inr f"
    by blast
  from File_init_fields(7) [OF f] have "safety_category f = None" .
  then have "is_unknown (apply_call f Make_unknown) \<and>
      is_binary (foldl apply_call f [Make_unknown, Make_binary])"
    using safety_category_make_unknown [of f] safety_category_make_binary [of "make_unknown f"]
    by (simp add: is_unknown_def is_binary_def safety_category_def)
  then show ?thesis
    unfolding f sum.case .
qed

theorem safety_category_monotone_witness:
  "\<exists>f. File_init (fixture_env (lit ''application/x-foo'') [1]) (lit ''/src/a.foo'') (lit ''/dst/a.foo'') = Inr f \<and>
        category_le (safety_category f)
          (safety_category (foldl apply_call f
             [Make_unknown, Make_binary, Make_dangerous (Some (lit ''Archive bomb'')), Make_unknown]))"
proof -
  from File_init_returns [OF fixture_env_fields(1) fixture_env_fields(2) split_subtypes_x_foo]
  obtain f where f: "File_init (fixture_env (lit ''application/x-foo'') [1]) (lit ''/src/a.foo'') (lit ''/dst/a.foo'') = Inr f"
    by blast
  show ?thesis
    by (rule exI [of _ f]) (intro conjI f safety_category_monotone)
qed

theorem rlo_filename_is_dangerous_witness:
  "\<exists>f. File_init (fixture_env (lit ''text/plain'') [104, 105])
           (lit ''/src/'' @ [97, 8238, 98] @ lit ''.txt'') (lit ''/dst/'' @ [97, 8238, 98] @ lit ''.txt'') = Inr f \<and>
        right_to_left_override \<in> set (filename f) \<and>
        (\<exists>f'. check fixture_mimetypes (fixture_env (lit ''text/plain'') [104, 105]) Map.empty f
                 = Inr (Map.empty, f') \<and> is_dangerous f' \<and>
           right_to_left_override \<notin> set (dst_path f') \<and>
           filename f' = filename f \<and> p_filename (file_props f') = filename f \<and>
           src_path f' = src_path f \<and>
           right_to_left_override \<in> set (p_filename (file_props f')) \<and>
           Some (lit ''Filename contains dangerous character'') \<in> set (descriptions f'))"
proof -
  from File_init_returns [OF fixture_env_fields(1) fixture_env_fields(2) split_subtypes_text_plain]
  obtain f where f: "File_init (fixture_env (lit ''text/plain'') [104, 105])
           (lit ''/src/'' @ [97, 8238, 98] @ lit ''.txt'') (lit ''/dst/'' @ [97, 8238, 98] @ lit ''.txt'') = Inr f"
    by blast
  have rlo: "right_to_left_override \<in> set (filename f)"
    unfolding File_init_fields(3) [OF f]
    by (simp add: basename_def rfind_def right_to_left_override_def)
  from f rlo rlo_filename_is_dangerous [OF f rlo] show ?thesis by blast
qed
text \<open>
  C8, as stated, fails: the existence test of \<open>create_metadata_file\<close> is on
  \<open>src_path + ext\<close>, the sidecar is created at \<open>dst_path + ext\<close>. With a file at the
  sidecar's own path the call succeeds and records nothing; with a file at the source
  path plus the extension it fails, though nothing is at the sidecar's path.
\<close>

theorem sidecar_check_is_on_source_path:
  "(case File_init (fixture_env (lit ''image/jpeg'') [1]) (lit ''/src/a.jpg'') (lit ''/dst/a.jpg'') of
      Inl e \<Rightarrow> False
    | Inr f \<Rightarrow>
        exists_path [lit ''/dst'' \<mapsto> DirObj, lit ''/dst/a.jpg.metadata.txt'' \<mapsto> FileObj []]
          (lit ''/dst/a.jpg.metadata.txt'') \<and>
        (case create_metadata_file
                [lit ''/dst'' \<mapsto> DirObj, lit ''/dst/a.jpg.metadata.txt'' \<mapsto> FileObj []]
                f (lit ''.metadata.txt'') of
           Inl e \<Rightarrow> False
         | Inr (fs1, f1, r) \<Rightarrow>
             r = Some (lit ''/dst/a.jpg.metadata.txt'') \<and>
             p_errors (file_props f1) = p_errors (file_props f)) \<and>
        \<not> exists_path [lit ''/dst'' \<mapsto> DirObj, lit ''/src/a.jpg.metadata.txt'' \<mapsto> FileObj []]
            (lit ''/dst/a.jpg.metadata.txt'') \<and>
        (case create_metadata_file
                [lit ''/dst'' \<mapsto> DirObj, lit ''/src/a.jpg.metadata.txt'' \<mapsto> FileObj []]
                f (lit ''.metadata.txt'') of
           Inl e \<Rightarrow> False
         | Inr (fs1, f1, r) \<Rightarrow>
             r = None \<and>
             p_errors (file_props f1) = p_errors (file_props f) @ [(KittenGroomerError, [])]))"
proof -
  let ?fsa = "[lit ''/dst'' \<mapsto> DirObj, lit ''/dst/a.jpg.metadata.txt'' \<mapsto> FileObj []]"
  let ?fsb = "[lit ''/dst'' \<mapsto> DirObj, lit ''/src/a.jpg.metadata.txt'' \<mapsto> FileObj []]"
  have "split_subtypes (lit ''image/jpeg'') = Inr (Some (lit ''image''), Some (lit ''jpeg''))"
    by (simp add: split_subtypes_def)
  from File_init_returns [OF fixture_env_fields(1) fixture_env_fields(2) this]
  obtain f where f: "File_init (fixture_env (lit ''image/jpeg'') [1]) (lit ''/src/a.jpg'') (lit ''/dst/a.jpg'') = Inr f"
    by blast
  note p = File_init_fields(1,2) [OF f]
  have e: "check_leading_dot (lit ''.metadata.txt'') = lit ''.metadata.txt''"
    by (simp add: check_leading_dot_def startswith_def)
  have ps: "fst (path_split (lit ''/dst/a.jpg'')) = lit ''/dst''"
    by (simp add: path_split_def rfind_def rstrip_def Let_def)
  have xa: "\<not> exists_path ?fsa (lit ''/src/a.jpg'' @ lit ''.metadata.txt'')"
    by (simp add: exists_path_def stat_def is_root_def)
  have xb: "exists_path ?fsb (lit ''/src/a.jpg'' @ lit ''.metadata.txt'')"
    by (simp add: exists_path_def stat_def is_root_def)
  have da: "exists_path ?fsa (lit ''/dst'')"
    by (simp add: exists_path_def stat_def is_root_def)
  have sa: "exists_path ?fsa (lit ''/dst/a.jpg.metadata.txt'')"
    by (simp add: exists_path_def stat_def is_root_def)
  have sb: "\<not> exists_path ?fsb (lit ''/dst/a.jpg.metadata.txt'')"
    by (simp add: exists_path_def stat_def is_root_def)
  have d: "lit ''/dst/a.jpg'' @ lit ''.metadata.txt'' = lit ''/dst/a.jpg.metadata.txt''"
    by simp
  have a: "(case create_metadata_file ?fsa f (lit ''.metadata.txt'') of
           Inl e \<Rightarrow> False
         | Inr (fs1, f1, r) \<Rightarrow>
             r = Some (lit ''/dst/a.jpg.metadata.txt'') \<and>
             p_errors (file_props f1) = p_errors (file_props f))"
    unfolding create_metadata_file_result p e ps using xa da d by simp
  have b: "(case create_metadata_file ?fsb f (lit ''.metadata.txt'') of
           Inl e \<Rightarrow> False
         | Inr (fs1, f1, r) \<Rightarrow>
             r = None \<and>
             p_errors (file_props f1) = p_errors (file_props f) @ [(KittenGroomerError, [])])"
    unfolding create_metadata_file_result p e using xb by (simp add: add_error_def)
  show ?thesis
    unfolding f sum.case by (intro conjI sa a sb b)
qed

lemma fixture_guess_txt:
  "guess_type fixture_mimetypes (lit ''/src/a.txt'') = Some (lit ''text/plain'')"
  "guess_type fixture_mimetypes (lit ''/src/README.TXT'') = Some (lit ''text/plain'')"
  "lit ''.txt'' \<in> set (guess_all_extensions fixture_mimetypes (lit ''text/plain''))"
  by (simp_all add: fixture_mimetypes_def fixture_types_def splitext_def rfind_def lower_ascii_def Let_def)

lemma fixture_ext_txt:
  "determine_extension (fixture_env m bytes) (lit ''/src/a.txt'') = Some (lit ''.txt'')"
  "determine_extension (fixture_env m bytes) (lit ''/src/README.TXT'') = Some (lit ''.txt'')"
  by (simp_all add: determine_extension_def splitext_def rfind_def lower_ascii_def Let_def)



lemma fixture_guess_zip:
  "guess_type fixture_mimetypes (lit ''/src/a.zip'') = Some (lit ''application/zip'')"
  "lit ''.zip'' \<in> set (guess_all_extensions fixture_mimetypes (lit ''application/zip''))"
  "guess_type fixture_mimetypes (lit ''/dst/a.zip_temp/a.txt'') = Some (lit ''text/plain'')"
  by (simp_all add: fixture_mimetypes_def fixture_types_def splitext_def rfind_def lower_ascii_def Let_def)

lemma fixture_groomer_fields [simp]:
  "filesys (fixture_groomer n fs) = fs"
  "log_lines (fixture_groomer n fs) = []"
  "recursive_archive_depth (fixture_groomer n fs) = 0"
  "max_recursive_depth (fixture_groomer n fs) = n"
  "logger_src_root_path (fixture_groomer n fs) = lit ''/src''"
  "logger_dst_root_path (fixture_groomer n fs) = lit ''/dst''"
  "src_root_path (fixture_groomer n fs) = lit ''/src''"
  "dst_root_path (fixture_groomer n fs) = lit ''/dst''"
  by (simp_all add: fixture_groomer_def)

lemma failed_extraction_run:
  "\<exists>g' f ps1 ps2.
     File_init (fixture_env (lit ''application/zip'') [80, 75]) (lit ''/src/a.zip'') (lit ''/dst/a.zip'') = Inr f \<and>
     process_archive fixture_mimetypes
       (fixture_groomer 2 (populate (lit ''/src'') failed_extraction fixture_filesystem))
       (archive f) (Exited 2)
       [FileNode (lit ''a.txt'') (fixture_env (lit ''text/plain'') [104, 105]) (Exited 0) []]
       = Inr (g', archive f) \<and>
     run fixture_mimetypes
       (fixture_groomer 2 (populate (lit ''/src'') failed_extraction fixture_filesystem))
       failed_extraction = Inr g' \<and>
     recursive_archive_depth g' = 0 \<and>
     safety_category (archive f) = None \<and>
     log_lines g' = [Log_file (lit ''/src/a.zip'') ps1 [80, 75] False,
                     Log_file (lit ''/dst/a.zip_temp/a.txt'') ps2 [104, 105] False] \<and>
     p_description_string ps1 = [Some (lit ''Archive'')] \<and>
     stat (filesys g') (lit ''/dst/a.zip/a.txt'') = Some (FileObj [104, 105]) \<and>
     \<not> exists_path (filesys g') (lit ''/dst/a.zip_temp'')"
proof -
  let ?mt = fixture_mimetypes
  let ?ez = "fixture_env (lit ''application/zip'') [80, 75]"
  let ?et = "fixture_env (lit ''text/plain'') [104, 105]"
  let ?kids = "[FileNode (lit ''a.txt'') ?et (Exited 0) []]"
  define fs0 where "fs0 = [lit ''/src'' \<mapsto> DirObj, lit ''/dst'' \<mapsto> DirObj,
     lit ''/src/a.zip'' \<mapsto> FileObj [80, 75]]"
  define g0 where "g0 = fixture_groomer 2 fs0"
  have pop: "populate (lit ''/src'') failed_extraction fixture_filesystem = fs0"
    by (simp add: failed_extraction_def fixture_filesystem_def fs0_def path_join_def
        startswith_def endswith_def)
  have sz: "split_subtypes (lit ''application/zip'') = Inr (Some (lit ''application''), Some (lit ''zip''))"
    by (simp add: split_subtypes_def)
  from File_init_returns [OF fixture_env_fields(1) fixture_env_fields(2) sz]
  obtain f where f: "File_init ?ez (lit ''/src/a.zip'') (lit ''/dst/a.zip'') = Inr f"
    by blast
  note fl = File_init_fields [OF f]
  have ext: "extension f = Some (lit ''.zip'')"
    unfolding fl(5)
    by (simp add: determine_extension_def splitext_def rfind_def lower_ascii_def Let_def)
  have ne: "filename f \<noteq> []"
    unfolding fl(3) by (simp add: basename_def rfind_def)
  have rlo: "right_to_left_override \<notin> set (filename f)"
    unfolding fl(3) by (simp add: basename_def rfind_def right_to_left_override_def)
  note chk = check_zip [OF f fixture_env_fields(1) fixture_env_fields(2) ext ne rlo
      fixture_guess_zip(1) fixture_guess_zip(2)]
  \<comment> \<open>the archive is unpacked\<close>
  define fs1 where "fs1 = fs0(lit ''/dst/a.zip_temp'' \<mapsto> DirObj)"
  define fsA where "fsA = fs1(lit ''/dst/a.zip_temp/a.txt'' \<mapsto> FileObj [104, 105])"
  have tz0: "tempdir_path f = lit ''/dst/a.zip_temp''"
    using fl(10) by simp
  have tz: "tempdir_path (archive f) = lit ''/dst/a.zip_temp''"
    using tz0 by simp
  have mk: "make_tempdir (filesys (g0\<lparr>recursive_archive_depth := 1\<rparr>)) (archive f) = Inr fs1"
  proof -
    have "makedirs fs0 (lit ''/dst/a.zip_temp'') = Inr (fs0(lit ''/dst/a.zip_temp'' \<mapsto> DirObj))"
      by (rule makedirs_in_directory)
         (simp_all add: fs0_def isdir_def exists_path_def stat_def is_root_def path_split_def
            rfind_def rstrip_def Let_def)
    moreover have "\<not> exists_path fs0 (lit ''/dst/a.zip_temp'')"
      by (simp add: fs0_def exists_path_def stat_def is_root_def)
    ultimately show ?thesis
      by (simp add: make_tempdir_def tz0 g0_def fs1_def)
  qed
  have pp: "populate (tempdir_path (archive f)) ?kids fs1 = fsA"
    by (simp add: tz0 fsA_def path_join_def startswith_def endswith_def)
  define L1 where "L1 = Log_file (lit ''/src/a.zip'') (file_props (archive f)) [80, 75] False"
  define gA where "gA = g0\<lparr>recursive_archive_depth := 1, filesys := fsA, log_lines := [L1]\<rparr>"
  have up: "unpack (g0\<lparr>recursive_archive_depth := 1\<rparr>) (archive f) (Exited 2) ?kids = Inr gA"
  proof -
    have "unpack (g0\<lparr>recursive_archive_depth := 1\<rparr>) (archive f) (Exited 2) ?kids =
      Inr (g0\<lparr>recursive_archive_depth := 1\<rparr>
            \<lparr>filesys := populate (tempdir_path (archive f)) ?kids fs1,
             log_lines := log_lines (g0\<lparr>recursive_archive_depth := 1\<rparr>) @
               [Log_file (src_path (archive f)) (file_props (archive f)) [80, 75] False]\<rparr>)"
    proof (rule unpack_exact [OF _ mk])
      show "Exited 2 \<noteq> SpawnFailed" by simp
      show "stat (populate (tempdir_path (archive f)) ?kids fs1) (src_path (archive f)) = Some (FileObj [80, 75])"
        unfolding pp by (simp add: fl(1) fsA_def fs1_def fs0_def stat_def is_root_def)
      show "is_recursive (archive f)" by simp
      show "py_in (logger_dst_root_path (g0\<lparr>recursive_archive_depth := 1\<rparr>)) (src_path (archive f)) \<or>
          py_in (logger_src_root_path (g0\<lparr>recursive_archive_depth := 1\<rparr>)) (src_path (archive f))"
        by (simp add: fl(1) g0_def startswith_def)
      show "None \<notin> set (descriptions (archive f))"
        by (simp add: descriptions_add_description fl(11))
    qed
    then show ?thesis
      unfolding pp by (simp add: gA_def L1_def fl(1) g0_def)
  qed
  \<comment> \<open>its member is processed\<close>
  from File_init_returns [OF fixture_env_fields(1) fixture_env_fields(2) split_subtypes_text_plain]
  obtain h where h: "File_init ?et (lit ''/dst/a.zip_temp/a.txt'') (lit ''/dst/a.zip/a.txt'') = Inr h"
    by blast
  note hl = File_init_fields [OF h]
  have hext: "extension h = Some (lit ''.txt'')"
    unfolding hl(5)
    by (simp add: determine_extension_def splitext_def rfind_def lower_ascii_def Let_def)
  have hne: "filename h \<noteq> []"
    unfolding hl(3) by (simp add: basename_def rfind_def)
  have hrlo: "right_to_left_override \<notin> set (filename h)"
    unfolding hl(3) by (simp add: basename_def rfind_def right_to_left_override_def)
  define h' where "h' = set_property (force_ext (add_description h (lit ''Plain text file'')) (lit ''.txt''))
                   (Set_copied True)"
  define fs2 where "fs2 = fsA(lit ''/dst/a.zip'' \<mapsto> DirObj)"
  define L2 where "L2 = Log_file (lit ''/dst/a.zip_temp/a.txt'') (file_props h') [104, 105] False"
  define gB where "gB = gA\<lparr>filesys := fs2(lit ''/dst/a.zip/a.txt'' \<mapsto> FileObj [104, 105]),
                          log_lines := [L1, L2]\<rparr>"
  have ps: "fst (path_split (lit ''/dst/a.zip/a.txt'')) = lit ''/dst/a.zip''"
    by (simp add: path_split_def rfind_def rstrip_def Let_def)
  have pfh: "process_file ?mt gA h ?et (Exited 0) [] = Inr (gB, h')"
  proof -
    have "process_file ?mt gA h ?et (Exited 0) [] =
       Inr (gA\<lparr>filesys := fs2(lit ''/dst/a.zip/a.txt'' \<mapsto> FileObj [104, 105]),
              log_lines := log_lines gA @ [Log_file (lit ''/dst/a.zip_temp/a.txt'') (file_props h') [104, 105] False]\<rparr>, h')"
    proof (rule process_file_plain_text_exact [OF h fixture_env_fields(1) fixture_env_fields(2)
          hext hne hrlo fixture_guess_zip(3) fixture_guess_txt(3)])
      show "lit ''/dst/a.zip/a.txt'' =
          (if endswith (lit ''/dst/a.zip/a.txt'') (lit ''.txt'') then lit ''/dst/a.zip/a.txt''
           else lit ''/dst/a.zip/a.txt'' @ lit ''.txt'')"
        by (simp add: endswith_def)
      have "makedirs fsA (lit ''/dst/a.zip'') = Inr (fsA(lit ''/dst/a.zip'' \<mapsto> DirObj))"
        by (rule makedirs_in_directory)
           (simp_all add: fsA_def fs1_def fs0_def isdir_def exists_path_def stat_def is_root_def
              path_split_def rfind_def rstrip_def Let_def)
      moreover have "\<not> exists_path fsA (lit ''/dst/a.zip'')"
        by (simp add: fsA_def fs1_def fs0_def exists_path_def stat_def is_root_def)
      ultimately show "(if \<not> exists_path (filesys gA) (fst (path_split (lit ''/dst/a.zip/a.txt'')))
              then makedirs (filesys gA) (fst (path_split (lit ''/dst/a.zip/a.txt'')))
              else Inr (filesys gA)) = Inr fs2"
        unfolding ps by (simp add: gA_def fs2_def)
      show "stat fs2 (lit ''/dst/a.zip_temp/a.txt'') = Some (FileObj [104, 105])"
        by (simp add: fs2_def fsA_def stat_def is_root_def)
      show "isdir fs2 (fst (path_split (lit ''/dst/a.zip/a.txt'')))"
        unfolding ps by (simp add: fs2_def isdir_def stat_def is_root_def)
      show "\<not> isdir fs2 (lit ''/dst/a.zip/a.txt'')"
        by (simp add: fs2_def fsA_def fs1_def fs0_def isdir_def stat_def is_root_def)
      show "lit ''/dst/a.zip_temp/a.txt'' \<noteq> lit ''/dst/a.zip/a.txt''" by simp
      show "\<not> exists_path fs2 (lit ''/dst/a.zip/a.txt'' @ lit ''_temp'')"
        by (simp add: fs2_def fsA_def fs1_def fs0_def exists_path_def stat_def is_root_def)
      show "py_in (logger_dst_root_path gA) (lit ''/dst/a.zip_temp/a.txt'') \<or>
          py_in (logger_src_root_path gA) (lit ''/dst/a.zip_temp/a.txt'')"
        by (simp add: gA_def g0_def startswith_def)
      show "h' = set_property (force_ext (add_description h (lit ''Plain text file'')) (lit ''.txt''))
                   (Set_copied True)"
        by (rule h'_def)
    qed
    then show ?thesis by (simp add: gB_def gA_def L2_def)
  qed
  have pj: "path_join (lit ''/dst/a.zip'') (basename (lit ''/dst/a.zip_temp/a.txt'')) = lit ''/dst/a.zip/a.txt''"
    by (simp add: path_join_def basename_def rfind_def startswith_def endswith_def)
  have pd: "process_dir ?mt gA (tempdir_path (archive f)) (dst_path (archive f)) ?kids = Inr gB"
  proof -
    have "process_queue ?mt gA (lit ''/dst/a.zip'')
        [(lit ''/dst/a.zip_temp/a.txt'', QFile ?et (Exited 0) [])] =
        process_queue ?mt gB (lit ''/dst/a.zip'') []"
      by (rule process_queue_file [OF h [folded pj] pfh])
    then show ?thesis
      by (simp add: process_dir.simps tz0 fl(2) path_join_def startswith_def endswith_def
          process_queue.simps)
  qed
  \<comment> \<open>the scratch directory is removed\<close>
  define fsC where "fsC = (\<lambda>q. if q = lit ''/dst/a.zip_temp'' \<or> startswith q (lit ''/dst/a.zip_temp'' @ [47])
      then None else filesys gB q)"
  have stT: "stat (filesys gB) (lit ''/dst/a.zip_temp'') = Some DirObj"
    by (simp add: gB_def gA_def fs2_def fsA_def fs1_def stat_def is_root_def)
  have cu: "cleanup gB (tempdir_path (archive f)) = Inr (gB\<lparr>filesys := fsC\<rparr>)"
    unfolding tz cleanup_def safe_rmtree_def rmtree_def exists_path_def stT fsC_def by simp
  define gC where "gC = gB\<lparr>filesys := fsC, recursive_archive_depth := 0\<rparr>"
  have pa: "process_archive ?mt g0 (archive f) (Exited 2) ?kids = Inr (gC, archive f)"
  proof -
    have d: "recursive_archive_depth g0 + 1 < max_recursive_depth g0"
      by (simp add: g0_def)
    have e: "g0\<lparr>recursive_archive_depth := recursive_archive_depth g0 + 1\<rparr> =
        g0\<lparr>recursive_archive_depth := 1\<rparr>"
      by (simp add: g0_def)
    show ?thesis
      unfolding process_archive_expanded [OF d] e up sum.case pd cu
      by (simp add: gC_def gB_def gA_def)
  qed
  have nx: "\<not> exists_path fsC (lit ''/dst/a.zip_temp'')"
    by (simp add: fsC_def exists_path_def stat_def is_root_def)
  have cu2: "cleanup gC (tempdir_path (archive f)) = Inr gC"
    using nx by (simp add: cleanup_def safe_rmtree_def tz0 gC_def)
  have pf: "process_file ?mt g0 f ?ez (Exited 2) ?kids = Inr (gC, archive f)"
    unfolding process_file_archive [OF chk archive_frame(4) archive_frame(5)]
      groomer_filesys_same pa sum.case prod.case cu2
    by (rule refl)
  have pj0: "path_join (lit ''/dst'') (basename (lit ''/src/a.zip'')) = lit ''/dst/a.zip''"
    by (simp add: path_join_def basename_def rfind_def startswith_def endswith_def)
  have rn: "run ?mt g0 failed_extraction = Inr gC"
  proof -
    have "process_queue ?mt g0 (lit ''/dst'')
        [(lit ''/src/a.zip'', QFile ?ez (Exited 2) ?kids)] =
        process_queue ?mt gC (lit ''/dst'') []"
      by (rule process_queue_file [OF f [folded pj0] pf])
    then show ?thesis
      by (simp add: run_def process_dir.simps failed_extraction_def g0_def path_join_def
          startswith_def endswith_def process_queue.simps)
  qed
  have st: "stat (filesys gC) (lit ''/dst/a.zip/a.txt'') = Some (FileObj [104, 105])"
    by (simp add: gC_def fsC_def gB_def stat_def is_root_def startswith_def)
  have lg: "log_lines gC = [Log_file (lit ''/src/a.zip'') (file_props (archive f)) [80, 75] False,
      Log_file (lit ''/dst/a.zip_temp/a.txt'') (file_props h') [104, 105] False]"
    by (simp add: gC_def gB_def L1_def L2_def)
  have "descriptions (archive f) = [Some (lit ''Archive'')]"
    unfolding archive_frame(7) descriptions_add_description fl(11) by simp
  then have ds: "p_description_string (file_props (archive f)) = [Some (lit ''Archive'')]"
    unfolding descriptions_def .
  have sc: "safety_category (archive f) = None"
    using fl(7) by simp
  have dp: "recursive_archive_depth gC = 0" by (simp add: gC_def)
  have nt: "\<not> exists_path (filesys gC) (lit ''/dst/a.zip_temp'')"
    using nx by (simp add: gC_def)
  show ?thesis
    unfolding pop g0_def [symmetric]
    by (intro exI [of _ gC] exI [of _ f] exI [of _ "file_props (archive f)"] exI [of _ "file_props h'"]
        conjI f pa rn dp sc lg ds st nt)
qed



end
